theory Spec2Isabelle
  imports Complex_Main "HOL-Library.AList"
begin

section \<open>The basketball room server (server.js)\<close>

text \<open>
  A shallow embedding of the class \<open>GameRoom\<close> of \<open>server.js\<close> and of the socket
  handlers and the interval timer that drive it.

  \<^item> JavaScript numbers are modelled as \<open>real\<close> (coordinates, velocities, angles) and as
    \<open>int\<close> (scores, and the millisecond time stamps that \<open>Date.now()\<close> returns). Rounding
    of IEEE doubles is not modelled, and neither are \<open>NaN\<close> and the infinities: every
    numeric argument of a method is a finite number.
  \<^item> \<open>Date.now()\<close> is an input: every method that reads the clock takes one argument per
    read, in the order of the reads.
  \<^item> A JavaScript \<open>Map\<close> is an association list with distinct keys in insertion order:
    \<open>Map.set\<close> is \<open>AList.update\<close> (replace in place, or append), \<open>Map.delete\<close> is
    \<open>AList.delete\<close>, \<open>Map.get\<close> is \<open>map_of\<close>, \<open>Map.size\<close> is \<open>length\<close>, and
    \<open>Map.forEach\<close> walks the list from its head.
  \<^item> A method that mutates \<open>this\<close> takes the room and returns the new room, paired with
    the method's return value when it has one.
  \<^item> Fields are prefixed where the source's name is too short to be a constant
    (\<open>ball.x\<close> is \<open>ball_x\<close>, \<open>player.x\<close> is \<open>player_x\<close>, \<open>room.id\<close> is \<open>room_id\<close>).
\<close>

subsection \<open>Constants (lines 24-32)\<close>

definition GAME_WIDTH :: real where "GAME_WIDTH = 1024"
definition GAME_HEIGHT :: real where "GAME_HEIGHT = 600"
definition BASKET_X :: real where "BASKET_X = GAME_WIDTH - 100"
definition BASKET_Y :: real where "BASKET_Y = 150"
definition CENTER_X :: real where "CENTER_X = GAME_WIDTH / 2"
definition CENTER_Y :: real where "CENTER_Y = GAME_HEIGHT / 2"
definition BALL_SPEED :: real where "BALL_SPEED = 7"
definition BALL_RADIUS :: real where "BALL_RADIUS = 10"

subsection \<open>Data\<close>

datatype team = Team1 | Team2

datatype phase = Waiting | Playing | Paused | Ended

record Player =
  player_id :: string
  player_name :: string
  team :: team
  player_x :: real
  player_y :: real
  player_vx :: real
  player_vy :: real
  hasBall :: bool
  player_score :: int
  active :: bool

record Ball =
  ball_x :: real
  ball_y :: real
  ball_vx :: real
  ball_vy :: real
  owner :: "string option"
  inBasket :: bool

record Score =
  team1 :: int
  team2 :: int

record GameRoom =
  room_id :: string
  players :: "(string \<times> Player) list"
  ball :: Ball
  score :: Score
  gameState :: phase
  lastUpdate :: int
  gameStartTime :: "int option"
  maxPlayers :: nat

text \<open>
  \<open>ball.owner\<close> is \<open>null\<close> or a player id, a string. The source tests it by truthiness
  (\<open>if (this.ball.owner)\<close>, \<open>if (!playerId)\<close>): \<open>null\<close> and the empty string are falsy.
\<close>

fun truthy :: "string option \<Rightarrow> bool" where
  "truthy None = False"
| "truthy (Some s) = (s \<noteq> [])"

text \<open>The distance of lines 135-138 and 150-153.\<close>

definition distance :: "real \<Rightarrow> real \<Rightarrow> real \<Rightarrow> real \<Rightarrow> real" where
  "distance x1 y1 x2 y2 = sqrt ((x1 - x2)\<^sup>2 + (y1 - y2)\<^sup>2)"

subsection \<open>The constructor (lines 36-52)\<close>

definition centerBall :: Ball where
  "centerBall = \<lparr>ball_x = CENTER_X, ball_y = CENTER_Y, ball_vx = 0, ball_vy = 0,
     owner = None, inBasket = False\<rparr>"

definition new_GameRoom :: "string \<Rightarrow> int \<Rightarrow> GameRoom" where
  "new_GameRoom roomId now =
     \<lparr>room_id = roomId, players = [], ball = centerBall,
      score = \<lparr>team1 = 0, team2 = 0\<rparr>, gameState = Waiting, lastUpdate = now,
      gameStartTime = None, maxPlayers = 6\<rparr>"

subsection \<open>addPlayer (lines 54-74)\<close>

text \<open>The object literal of lines 60-71; \<open>n\<close> is \<open>this.players.size\<close> before the insertion.\<close>

definition newPlayer :: "string \<Rightarrow> string \<Rightarrow> nat \<Rightarrow> Player" where
  "newPlayer playerId nm n =
     (let tm = (if n < 3 then Team1 else Team2) in
      \<lparr>player_id = playerId, player_name = nm, team = tm,
       player_x = (if tm = Team1 then 100 else GAME_WIDTH - 100),
       player_y = CENTER_Y + real (n mod 3) * 80 - 80,
       player_vx = 0, player_vy = 0, hasBall = False, player_score = 0, active = True\<rparr>)"

definition addPlayer :: "string \<Rightarrow> string \<Rightarrow> GameRoom \<Rightarrow> bool \<times> GameRoom" where
  "addPlayer playerId nm r =
     (if length (players r) \<ge> maxPlayers r then (False, r)
      else (True, r\<lparr>players :=
              AList.update playerId (newPlayer playerId nm (length (players r))) (players r)\<rparr>))"

subsection \<open>removePlayer (lines 76-82)\<close>

definition removePlayer :: "string \<Rightarrow> GameRoom \<Rightarrow> bool \<times> GameRoom" where
  "removePlayer playerId r =
     (let r1 = r\<lparr>players := AList.delete playerId (players r)\<rparr>;
          r2 = (if owner (ball r1) = Some playerId
                then r1\<lparr>ball := (ball r1)\<lparr>owner := None\<rparr>\<rparr> else r1)
      in (length (players r2) = 0, r2))"

subsection \<open>updatePlayerPosition (lines 84-92)\<close>

definition updatePlayerPosition ::
  "string \<Rightarrow> real \<Rightarrow> real \<Rightarrow> real \<Rightarrow> real \<Rightarrow> GameRoom \<Rightarrow> GameRoom" where
  "updatePlayerPosition playerId x y vx vy r =
     (case map_of (players r) playerId of
        None \<Rightarrow> r
      | Some player \<Rightarrow>
          r\<lparr>players := AList.update playerId
              (player\<lparr>player_x := max 0 (min (GAME_WIDTH - 20) x),
                      player_y := max 0 (min (GAME_HEIGHT - 20) y),
                      player_vx := vx, player_vy := vy\<rparr>) (players r)\<rparr>)"

subsection \<open>scorePoint and resetBall (lines 163-190)\<close>

definition scorePoint :: "string option \<Rightarrow> GameRoom \<Rightarrow> GameRoom" where
  "scorePoint playerId r =
     (if \<not> truthy playerId then r
      else case playerId of
        None \<Rightarrow> r
      | Some k \<Rightarrow>
         (case map_of (players r) k of
            None \<Rightarrow> r
          | Some player \<Rightarrow>
              (let r1 = (if team player = Team1
                         then r\<lparr>score := (score r)\<lparr>team1 := team1 (score r) + 2\<rparr>\<rparr>
                         else r\<lparr>score := (score r)\<lparr>team2 := team2 (score r) + 2\<rparr>\<rparr>)
               in r1\<lparr>players := AList.update k
                       (player\<lparr>player_score := player_score player + 2\<rparr>) (players r1)\<rparr>)))"

definition resetBall :: "GameRoom \<Rightarrow> GameRoom" where
  "resetBall r =
     r\<lparr>ball := centerBall,
       players := map (\<lambda>(k, player). (k, player\<lparr>hasBall := False\<rparr>)) (players r)\<rparr>"

subsection \<open>updateBall (lines 94-161)\<close>

text \<open>Lines 100-105: the owned ball follows its owner.\<close>

definition followOwner :: "GameRoom \<Rightarrow> GameRoom" where
  "followOwner r =
     (case owner (ball r) of
        None \<Rightarrow> r
      | Some k \<Rightarrow>
         (case map_of (players r) k of
            None \<Rightarrow> r
          | Some ownerP \<Rightarrow>
              r\<lparr>ball := (ball r)\<lparr>ball_x := player_x ownerP + 15,
                                  ball_y := player_y ownerP + 15\<rparr>\<rparr>))"

text \<open>Lines 107-114: position first, from the velocity before the step, then gravity and friction.\<close>

definition applyPhysics :: "real \<Rightarrow> Ball \<Rightarrow> Ball" where
  "applyPhysics timeDelta b =
     (let b1 = b\<lparr>ball_x := ball_x b + ball_vx b * timeDelta * BALL_SPEED\<rparr>;
          b2 = b1\<lparr>ball_y := ball_y b1 + ball_vy b1 * timeDelta * BALL_SPEED\<rparr>;
          b3 = b2\<lparr>ball_vy := ball_vy b2 + 5 * timeDelta\<rparr>;
          b4 = b3\<lparr>ball_vx := ball_vx b3 * 0.98\<rparr>
      in b4\<lparr>ball_vy := ball_vy b4 * 0.98\<rparr>)"

text \<open>
  Lines 116-132: the four walls, four \<open>if\<close> statements that run one after the other,
  each on the ball the one before it has left.
\<close>

definition wallLeft :: "Ball \<Rightarrow> Ball" where
  "wallLeft b =
     (if ball_x b - BALL_RADIUS < 0
      then b\<lparr>ball_x := BALL_RADIUS, ball_vx := \<bar>ball_vx b\<bar>\<rparr> else b)"

definition wallRight :: "Ball \<Rightarrow> Ball" where
  "wallRight b =
     (if ball_x b + BALL_RADIUS > GAME_WIDTH
      then b\<lparr>ball_x := GAME_WIDTH - BALL_RADIUS, ball_vx := - \<bar>ball_vx b\<bar>\<rparr> else b)"

definition wallTop :: "Ball \<Rightarrow> Ball" where
  "wallTop b =
     (if ball_y b - BALL_RADIUS < 0
      then b\<lparr>ball_y := BALL_RADIUS, ball_vy := \<bar>ball_vy b\<bar>\<rparr> else b)"

definition wallBottom :: "Ball \<Rightarrow> Ball" where
  "wallBottom b =
     (if ball_y b + BALL_RADIUS > GAME_HEIGHT
      then b\<lparr>ball_y := GAME_HEIGHT - BALL_RADIUS, ball_vy := - \<bar>ball_vy b\<bar> * 0.7\<rparr> else b)"

definition wallCollision :: "Ball \<Rightarrow> Ball" where
  "wallCollision b = wallBottom (wallTop (wallRight (wallLeft b)))"

text \<open>Lines 134-144: the basket.\<close>

definition checkBasket :: "GameRoom \<Rightarrow> GameRoom" where
  "checkBasket r =
     (if distance (ball_x (ball r)) (ball_y (ball r)) BASKET_X BASKET_Y < 30
      then (let r1 = r\<lparr>ball := (ball r)\<lparr>inBasket := True\<rparr>\<rparr>
            in resetBall (scorePoint (owner (ball r1)) r1))
      else r)"

text \<open>
  Lines 147-160: \<open>players.forEach\<close>. The callback reads \<open>this.ball.owner\<close> anew for every
  player, so the owner found so far is threaded through the walk; the ball's position
  does not change during it.
\<close>

fun pickup ::
  "real \<Rightarrow> real \<Rightarrow> string option \<Rightarrow> (string \<times> Player) list
    \<Rightarrow> string option \<times> (string \<times> Player) list" where
  "pickup bx by0 ow [] = (ow, [])"
| "pickup bx by0 ow ((k, player) # ps) =
     (if \<not> truthy ow \<and> distance bx by0 (player_x player) (player_y player) < 35
      then (case pickup bx by0 (Some (player_id player)) ps of
              (ow', ps') \<Rightarrow> (ow', (k, player\<lparr>hasBall := True\<rparr>) # ps'))
      else (case pickup bx by0 ow ps of
              (ow', ps') \<Rightarrow> (ow', (k, player) # ps')))"

definition checkPlayers :: "GameRoom \<Rightarrow> GameRoom" where
  "checkPlayers r =
     (case pickup (ball_x (ball r)) (ball_y (ball r)) (owner (ball r)) (players r) of
        (ow', ps') \<Rightarrow> r\<lparr>ball := (ball r)\<lparr>owner := ow'\<rparr>, players := ps'\<rparr>)"

text \<open>Line 97: the time since the last step, in seconds.\<close>

definition timeDelta :: "int \<Rightarrow> GameRoom \<Rightarrow> real" where
  "timeDelta now r = real_of_int (now - lastUpdate r) / 1000"

text \<open>\<open>now1\<close> is the clock read of line 97 and \<open>now2\<close> that of line 98.\<close>

definition updateBall :: "int \<Rightarrow> int \<Rightarrow> GameRoom \<Rightarrow> GameRoom" where
  "updateBall now1 now2 r =
     (if gameState r \<noteq> Playing then r
      else
        (let dt = timeDelta now1 r;
             r0 = r\<lparr>lastUpdate := now2\<rparr>;
             r1 = (if truthy (owner (ball r0)) then followOwner r0
                   else checkBasket (r0\<lparr>ball := wallCollision (applyPhysics dt (ball r0))\<rparr>))
         in checkPlayers r1))"

subsection \<open>throwBall (lines 192-205)\<close>

text \<open>
  The parameter \<open>power\<close> is written \<open>pwr\<close>. Both parameters are numbers here. The
  \<open>throw-ball\<close> handler passes \<open>data.direction\<close> and \<open>data.power\<close> on as the client sent
  them (line 302); a field that is missing or is not a number makes line 197 or lines
  199-200 compute \<open>NaN\<close>, which a \<open>real\<close> does not represent, so such a call is outside
  this definition.
\<close>

definition throwBall :: "real \<Rightarrow> real \<Rightarrow> GameRoom \<Rightarrow> GameRoom" where
  "throwBall direction pwr r =
     (if \<not> truthy (owner (ball r)) then r
      else case owner (ball r) of
        None \<Rightarrow> r
      | Some k \<Rightarrow>
         (case map_of (players r) k of
            None \<Rightarrow> r
          | Some ownerP \<Rightarrow>
              (let angle = direction;
                   strength = min pwr 100 / 100
               in r\<lparr>ball := (ball r)\<lparr>ball_vx := cos angle * strength,
                                      ball_vy := sin angle * strength,
                                      owner := None\<rparr>,
                     players := AList.update k (ownerP\<lparr>hasBall := False\<rparr>) (players r)\<rparr>)))"

subsection \<open>startGame (lines 207-215)\<close>

text \<open>\<open>now1\<close> is the clock read of line 210 and \<open>now2\<close> that of line 211.\<close>

definition startGame :: "int \<Rightarrow> int \<Rightarrow> GameRoom \<Rightarrow> bool \<times> GameRoom" where
  "startGame now1 now2 r =
     (if length (players r) \<ge> 2
      then (True, r\<lparr>gameState := Playing, gameStartTime := Some now1, lastUpdate := now2\<rparr>)
      else (False, r))"

subsection \<open>Sequences of room operations\<close>

text \<open>
  The operations a room receives: its methods, and the two assignments to
  \<open>room.gameState\<close> that the \<open>pause-game\<close> and \<open>resume-game\<close> handlers make
  (lines 324 and 335).
\<close>

datatype room_op =
    AddPlayer string string
  | RemovePlayer string
  | UpdatePlayerPosition string real real real real
  | UpdateBall int int
  | ThrowBall real real
  | StartGame int int
  | Pause
  | Resume

fun apply_op :: "room_op \<Rightarrow> GameRoom \<Rightarrow> GameRoom" where
  "apply_op (AddPlayer playerId nm) r = snd (addPlayer playerId nm r)"
| "apply_op (RemovePlayer playerId) r = snd (removePlayer playerId r)"
| "apply_op (UpdatePlayerPosition playerId x y vx vy) r = updatePlayerPosition playerId x y vx vy r"
| "apply_op (UpdateBall now1 now2) r = updateBall now1 now2 r"
| "apply_op (ThrowBall direction pwr) r = throwBall direction pwr r"
| "apply_op (StartGame now1 now2) r = snd (startGame now1 now2 r)"
| "apply_op Pause r = r\<lparr>gameState := Paused\<rparr>"
| "apply_op Resume r = r\<lparr>gameState := Playing\<rparr>"

fun run :: "room_op list \<Rightarrow> GameRoom \<Rightarrow> GameRoom" where
  "run [] r = r"
| "run (c # cs) r = run cs (apply_op c r)"


subsection \<open>The registries, the socket handlers and the game loop (lines 20-21, 253-402)\<close>

text \<open>
  \<open>gameRooms\<close> maps a room id to its room, \<open>playerSockets\<close> a socket id to
  \<open>{roomId, playerId}\<close>, and \<open>gameLoops\<close> a room id to the handle of its interval timer.
  A handle is opaque, so \<open>gameLoops\<close> is the list of the room ids that have a timer:
  \<open>setInterval\<close> and \<open>gameLoops.set\<close> happen together (lines 388-401), and so do
  \<open>clearInterval\<close> and \<open>gameLoops.delete\<close> (lines 392-393), hence a room's timer runs
  exactly while its id is in the list. Emitting to the sockets is not modelled.
\<close>

record Server =
  gameRooms :: "(string \<times> GameRoom) list"
  playerSockets :: "(string \<times> string \<times> string) list"
  gameLoops :: "string list"

definition new_Server :: Server where
  "new_Server = \<lparr>gameRooms = [], playerSockets = [], gameLoops = []\<rparr>"

text \<open>Lines 256-277; \<open>now\<close> is the clock read of the constructor when the room is created.\<close>

definition join_room :: "string \<Rightarrow> string \<Rightarrow> string \<Rightarrow> int \<Rightarrow> Server \<Rightarrow> Server" where
  "join_room socket roomId playerName now s =
     (let room = (case map_of (gameRooms s) roomId of
                    Some room \<Rightarrow> room
                  | None \<Rightarrow> new_GameRoom roomId now)
      in case addPlayer socket playerName room of
           (success, room') \<Rightarrow>
             (let s1 = s\<lparr>gameRooms := AList.update roomId room' (gameRooms s)\<rparr>
              in if success
                 then s1\<lparr>playerSockets :=
                           AList.update socket (roomId, socket) (playerSockets s1)\<rparr>
                 else s1))"

text \<open>
  The lookup every other handler starts with: the socket's entry of \<open>playerSockets\<close>,
  then the room of that entry.
\<close>

definition socket_room :: "string \<Rightarrow> Server \<Rightarrow> (string \<times> GameRoom) option" where
  "socket_room socket s =
     (case map_of (playerSockets s) socket of
        None \<Rightarrow> None
      | Some (roomId, playerId) \<Rightarrow>
         (case map_of (gameRooms s) roomId of
            None \<Rightarrow> None
          | Some room \<Rightarrow> Some (roomId, room)))"

text \<open>Lines 385-402, the registration.\<close>

definition startGameLoop :: "string \<Rightarrow> Server \<Rightarrow> Server" where
  "startGameLoop roomId s =
     (if roomId \<in> set (gameLoops s) then s
      else s\<lparr>gameLoops := gameLoops s @ [roomId]\<rparr>)"

text \<open>
  Lines 388-399, one run of the interval's callback. The callback of a room runs only
  while the room's timer is registered.
\<close>

definition interval_tick :: "string \<Rightarrow> int \<Rightarrow> int \<Rightarrow> Server \<Rightarrow> Server" where
  "interval_tick roomId now1 now2 s =
     (if roomId \<notin> set (gameLoops s) then s
      else case map_of (gameRooms s) roomId of
        None \<Rightarrow> s\<lparr>gameLoops := removeAll roomId (gameLoops s)\<rparr>
      | Some room \<Rightarrow>
          if gameState room \<noteq> Playing
          then s\<lparr>gameLoops := removeAll roomId (gameLoops s)\<rparr>
          else s\<lparr>gameRooms := AList.update roomId (updateBall now1 now2 room) (gameRooms s)\<rparr>)"

text \<open>Lines 307-316.\<close>

definition start_game :: "string \<Rightarrow> int \<Rightarrow> int \<Rightarrow> Server \<Rightarrow> Server" where
  "start_game socket now1 now2 s =
     (case socket_room socket s of
        None \<Rightarrow> s
      | Some (roomId, room) \<Rightarrow>
         (case startGame now1 now2 room of
            (ok, room') \<Rightarrow>
              if ok
              then startGameLoop roomId
                     (s\<lparr>gameRooms := AList.update roomId room' (gameRooms s)\<rparr>)
              else s))"

text \<open>Lines 318-327.\<close>

definition pause_game :: "string \<Rightarrow> Server \<Rightarrow> Server" where
  "pause_game socket s =
     (case socket_room socket s of
        None \<Rightarrow> s
      | Some (roomId, room) \<Rightarrow>
          s\<lparr>gameRooms := AList.update roomId (room\<lparr>gameState := Paused\<rparr>) (gameRooms s)\<rparr>)"

text \<open>Lines 329-338.\<close>

definition resume_game :: "string \<Rightarrow> Server \<Rightarrow> Server" where
  "resume_game socket s =
     (case socket_room socket s of
        None \<Rightarrow> s
      | Some (roomId, room) \<Rightarrow>
          s\<lparr>gameRooms := AList.update roomId (room\<lparr>gameState := Playing\<rparr>) (gameRooms s)\<rparr>)"

datatype event =
    JoinRoom string string string int
  | StartGameEv string int int
  | PauseGame string
  | ResumeGame string
  | Tick string int int

fun handle :: "event \<Rightarrow> Server \<Rightarrow> Server" where
  "handle (JoinRoom socket roomId playerName now) s = join_room socket roomId playerName now s"
| "handle (StartGameEv socket now1 now2) s = start_game socket now1 now2 s"
| "handle (PauseGame socket) s = pause_game socket s"
| "handle (ResumeGame socket) s = resume_game socket s"
| "handle (Tick roomId now1 now2) s = interval_tick roomId now1 now2 s"

fun serve :: "event list \<Rightarrow> Server \<Rightarrow> Server" where
  "serve [] s = s"
| "serve (e # es) s = serve es (handle e s)"

subsection \<open>The possession invariant\<close>

text \<open>
  What the \<open>players\<close> map of a room is by construction: its keys are distinct (it is a
  \<open>Map\<close>), every player is stored under the player's own id (line 61), and an id is a socket id,
  which is not the empty string.
\<close>

definition wellFormed :: "GameRoom \<Rightarrow> bool" where
  "wellFormed r \<longleftrightarrow>
     distinct (map fst (players r))
     \<and> (\<forall>(k, player) \<in> set (players r). player_id player = k \<and> k \<noteq> [])"

text \<open>\<open>ball.owner\<close> is \<open>null\<close> or a key of \<open>players\<close>.\<close>

definition ownerIsPlayer :: "GameRoom \<Rightarrow> bool" where
  "ownerIsPlayer r \<longleftrightarrow>
     (case owner (ball r) of None \<Rightarrow> True | Some k \<Rightarrow> k \<in> fst ` set (players r))"

text \<open>A player with \<open>hasBall\<close> is the owner; so at most one player has it.\<close>

definition flagOnlyOnOwner :: "GameRoom \<Rightarrow> bool" where
  "flagOnlyOnOwner r \<longleftrightarrow>
     (\<forall>(k, player) \<in> set (players r). hasBall player \<longrightarrow> owner (ball r) = Some k)"

text \<open>The owner has \<open>hasBall\<close>.\<close>

definition ownerHasFlag :: "GameRoom \<Rightarrow> bool" where
  "ownerHasFlag r \<longleftrightarrow>
     (\<forall>(k, player) \<in> set (players r). owner (ball r) = Some k \<longrightarrow> hasBall player)"

definition possession :: "GameRoom \<Rightarrow> bool" where
  "possession r \<longleftrightarrow> ownerIsPlayer r \<and> flagOnlyOnOwner r \<and> ownerHasFlag r"

subsection \<open>Example rooms\<close>

text \<open>
  Two playing rooms with a free ball beyond two walls at once, the first with the ball
  of the specification's wall-bounce example (\<open>x = -5\<close>, \<open>vx = -3\<close>).
\<close>

definition leftTopRoom :: GameRoom where
  "leftTopRoom = (new_GameRoom ''r'' 0)
     \<lparr>ball := \<lparr>ball_x = - 5, ball_y = 5, ball_vx = - 3, ball_vy = - 1,
                owner = None, inBasket = False\<rparr>,
      gameState := Playing, lastUpdate := 1000\<rparr>"

definition rightBottomRoom :: GameRoom where
  "rightBottomRoom = (new_GameRoom ''r'' 0)
     \<lparr>ball := \<lparr>ball_x = 1020, ball_y = 595, ball_vx = 3, ball_vy = 1,
                owner = None, inBasket = False\<rparr>,
      gameState := Playing, lastUpdate := 1000\<rparr>"

text \<open>
  A room in which a player holds the ball: two players join, the game starts, the first
  player walks to the ball at the centre and the next physics step gives it to that player.
\<close>

definition ownedRoom :: GameRoom where
  "ownedRoom =
     run [AddPlayer ''a'' ''Ann'', AddPlayer ''b'' ''Bob'', StartGame 1000 1000,
          UpdatePlayerPosition ''a'' 500 290 0 0, UpdateBall 1016 1016]
       (new_GameRoom ''r'' 0)"


text \<open>
  The owner of \<open>ownedRoom\<close> walks next to the basket, the ball follows at the next
  step, and the owner throws it gently along the x axis.
\<close>

definition shotRoom :: GameRoom where
  "shotRoom =
     run [UpdatePlayerPosition ''a'' 900 140 0 0, UpdateBall 1032 1032, ThrowBall 0 10]
       ownedRoom"

text \<open>
  A server on which two sockets join a room and start the game; the timer ticks, the
  game is paused, the timer ticks again, and the game is resumed.
\<close>

definition startedServer :: Server where
  "startedServer =
     serve [JoinRoom ''a'' ''r'' ''Ann'' 0, JoinRoom ''b'' ''r'' ''Bob'' 0,
            StartGameEv ''a'' 1000 1000, Tick ''r'' 1016 1016] new_Server"

definition resumedServer :: Server where
  "resumedServer =
     serve [PauseGame ''a'', Tick ''r'' 1033 1033, ResumeGame ''a''] startedServer"

section \<open>Basic facts\<close>

lemmas constants =
  GAME_WIDTH_def GAME_HEIGHT_def BASKET_X_def BASKET_Y_def CENTER_X_def CENTER_Y_def
  BALL_SPEED_def BALL_RADIUS_def

text \<open>The square root disappears from a comparison with a positive radius.\<close>

lemma distance_less_iff:
  "0 < d \<Longrightarrow> distance x1 y1 x2 y2 < d \<longleftrightarrow> (x1 - x2)\<^sup>2 + (y1 - y2)\<^sup>2 < d\<^sup>2"
  unfolding distance_def
  by (metis abs_of_pos real_sqrt_abs real_sqrt_less_iff)

lemma distance_35:
  "distance x1 y1 x2 y2 < 35 \<longleftrightarrow> (x1 - x2) * (x1 - x2) + (y1 - y2) * (y1 - y2) < 1225"
  using distance_less_iff [of 35 x1 y1 x2 y2] by (simp add: power2_eq_square)

lemma distance_30:
  "distance x1 y1 x2 y2 < 30 \<longleftrightarrow> (x1 - x2) * (x1 - x2) + (y1 - y2) * (y1 - y2) < 900"
  using distance_less_iff [of 30 x1 y1 x2 y2] by (simp add: power2_eq_square)

lemmas room_defs =
  addPlayer_def removePlayer_def updatePlayerPosition_def scorePoint_def resetBall_def
  followOwner_def applyPhysics_def wallLeft_def wallRight_def wallTop_def wallBottom_def
  wallCollision_def checkBasket_def checkPlayers_def
  timeDelta_def updateBall_def throwBall_def startGame_def new_GameRoom_def newPlayer_def
  centerBall_def

lemmas server_defs =
  new_Server_def join_room_def socket_room_def startGameLoop_def interval_tick_def
  start_game_def pause_game_def resume_game_def

section \<open>Capacity\<close>

lemma length_update:
  "length (AList.update k v al) = (if k \<in> fst ` set al then length al else Suc (length al))"
  by (induction al) auto

lemma map_of_Some_key: "map_of al k = Some v \<Longrightarrow> k \<in> fst ` set al"
  by (metis domI dom_map_of_conv_image_fst)

lemma length_update_present:
  "map_of al k = Some v \<Longrightarrow> length (AList.update k v' al) = length al"
  by (simp add: length_update map_of_Some_key)

lemma pickup_length: "length (snd (pickup bx by0 ow ps)) = length ps"
  by (induction bx by0 ow ps rule: pickup.induct) (simp_all add: case_prod_beta)

lemma pickup_keys: "map fst (snd (pickup bx by0 ow ps)) = map fst ps"
  by (induction bx by0 ow ps rule: pickup.induct) (simp_all add: case_prod_beta)

lemma maxPlayers_scorePoint [simp]: "maxPlayers (scorePoint k r) = maxPlayers r"
  by (simp add: scorePoint_def Let_def split: option.splits)

lemma maxPlayers_checkBasket [simp]: "maxPlayers (checkBasket r) = maxPlayers r"
  by (simp add: checkBasket_def resetBall_def Let_def)

lemma maxPlayers_followOwner [simp]: "maxPlayers (followOwner r) = maxPlayers r"
  by (simp add: followOwner_def split: option.splits)

lemma maxPlayers_checkPlayers [simp]: "maxPlayers (checkPlayers r) = maxPlayers r"
  by (simp add: checkPlayers_def split: prod.splits)

lemma maxPlayers_updateBall [simp]: "maxPlayers (updateBall now1 now2 r) = maxPlayers r"
  by (simp add: updateBall_def Let_def)

lemma maxPlayers_apply_op [simp]: "maxPlayers (apply_op c r) = maxPlayers r"
  by (cases c)
     (simp_all add: addPlayer_def removePlayer_def updatePlayerPosition_def throwBall_def
        startGame_def Let_def split: option.splits)

lemma maxPlayers_run [simp]: "maxPlayers (run cs r) = maxPlayers r"
  by (induction cs arbitrary: r) simp_all

lemma length_scorePoint [simp]: "length (players (scorePoint k r)) = length (players r)"
  by (auto simp: scorePoint_def Let_def length_update_present split: option.splits)

lemma length_checkBasket [simp]: "length (players (checkBasket r)) = length (players r)"
  by (simp add: checkBasket_def resetBall_def Let_def)

lemma length_followOwner [simp]: "length (players (followOwner r)) = length (players r)"
  by (simp add: followOwner_def split: option.splits)

lemma length_checkPlayers [simp]: "length (players (checkPlayers r)) = length (players r)"
  by (simp add: checkPlayers_def case_prod_beta pickup_length)

lemma length_updateBall [simp]:
  "length (players (updateBall now1 now2 r)) = length (players r)"
  by (simp add: updateBall_def Let_def)

text \<open>No operation takes a room that respects its capacity beyond it.\<close>

lemma length_apply_op:
  "length (players r) \<le> maxPlayers r \<Longrightarrow> length (players (apply_op c r)) \<le> maxPlayers r"
proof (cases c)
  case (AddPlayer k nm)
  assume "length (players r) \<le> maxPlayers r"
  then show ?thesis using AddPlayer by (simp add: addPlayer_def length_update)
next
  case (RemovePlayer k)
  assume "length (players r) \<le> maxPlayers r"
  then show ?thesis using RemovePlayer AList.length_delete_le [of k "players r"]
    by (simp add: removePlayer_def Let_def)
next
  case (UpdatePlayerPosition k x y vx vy)
  assume "length (players r) \<le> maxPlayers r"
  then show ?thesis using UpdatePlayerPosition
    by (auto simp: updatePlayerPosition_def length_update_present split: option.splits)
next
  case (ThrowBall d p)
  assume "length (players r) \<le> maxPlayers r"
  then show ?thesis using ThrowBall
    by (auto simp: throwBall_def Let_def length_update_present split: option.splits)
qed (simp_all add: startGame_def)

lemma length_run:
  "length (players r) \<le> maxPlayers r \<Longrightarrow> length (players (run cs r)) \<le> maxPlayers r"
proof (induction cs arbitrary: r)
  case Nil
  then show ?case by simp
next
  case (Cons c cs)
  from Cons.prems have "length (players (apply_op c r)) \<le> maxPlayers (apply_op c r)"
    by (simp add: length_apply_op)
  from Cons.IH [OF this] show ?case by simp
qed

text \<open>
  Claim C4. Whatever operations a room has received since its construction, it holds at
  most \<open>maxPlayers = 6\<close> players; and \<open>addPlayer\<close> on a room whose \<open>players.size\<close> has
  reached \<open>maxPlayers\<close> returns \<open>false\<close> and leaves the whole room as it was.
\<close>

theorem players_size_never_exceeds_maxPlayers:
  "length (players (run cs (new_GameRoom roomId now))) \<le> 6
   \<and> maxPlayers (run cs (new_GameRoom roomId now)) = 6
   \<and> (maxPlayers r \<le> length (players r) \<longrightarrow> addPlayer playerId nm r = (False, r))"
proof -
  have "length (players (run cs (new_GameRoom roomId now)))
          \<le> maxPlayers (new_GameRoom roomId now)"
    by (rule length_run) (simp add: new_GameRoom_def)
  then show ?thesis by (simp add: new_GameRoom_def addPlayer_def)
qed

text \<open>The seventh join of a room that six players have joined.\<close>

theorem seventh_join_rejected:
  "maxPlayers (run
      [AddPlayer ''a'' ''A'', AddPlayer ''b'' ''B'', AddPlayer ''c'' ''C'',
       AddPlayer ''d'' ''D'', AddPlayer ''e'' ''E'', AddPlayer ''f'' ''F'']
      (new_GameRoom ''r'' 0))
    \<le> length (players (run
      [AddPlayer ''a'' ''A'', AddPlayer ''b'' ''B'', AddPlayer ''c'' ''C'',
       AddPlayer ''d'' ''D'', AddPlayer ''e'' ''E'', AddPlayer ''f'' ''F'']
      (new_GameRoom ''r'' 0)))
   \<and> addPlayer ''g'' ''G'' (run
      [AddPlayer ''a'' ''A'', AddPlayer ''b'' ''B'', AddPlayer ''c'' ''C'',
       AddPlayer ''d'' ''D'', AddPlayer ''e'' ''E'', AddPlayer ''f'' ''F'']
      (new_GameRoom ''r'' 0))
     = (False, run
      [AddPlayer ''a'' ''A'', AddPlayer ''b'' ''B'', AddPlayer ''c'' ''C'',
       AddPlayer ''d'' ''D'', AddPlayer ''e'' ''E'', AddPlayer ''f'' ''F'']
      (new_GameRoom ''r'' 0))
   \<and> length (players (run
      [AddPlayer ''a'' ''A'', AddPlayer ''b'' ''B'', AddPlayer ''c'' ''C'',
       AddPlayer ''d'' ''D'', AddPlayer ''e'' ''E'', AddPlayer ''f'' ''F'',
       AddPlayer ''g'' ''G'']
      (new_GameRoom ''r'' 0))) = 6"
  using players_size_never_exceeds_maxPlayers
    [of "[AddPlayer ''a'' ''A'', AddPlayer ''b'' ''B'', AddPlayer ''c'' ''C'',
          AddPlayer ''d'' ''D'', AddPlayer ''e'' ''E'', AddPlayer ''f'' ''F'']" "''r''" 0
        "run [AddPlayer ''a'' ''A'', AddPlayer ''b'' ''B'', AddPlayer ''c'' ''C'',
          AddPlayer ''d'' ''D'', AddPlayer ''e'' ''E'', AddPlayer ''f'' ''F'']
          (new_GameRoom ''r'' 0)"
        "''g''" "''G''"]
  by (simp add: addPlayer_def new_GameRoom_def)

section \<open>Starting the game\<close>

text \<open>
  Claim C8. With fewer than two players \<open>startGame\<close> returns \<open>false\<close> and changes
  nothing. With two or more it returns \<open>true\<close>, the phase becomes \<open>playing\<close>,
  \<open>gameStartTime\<close> and \<open>lastUpdate\<close> take the clock's values at the call, and nothing else
  changes; so the time delta of a following physics step is counted from the start, and
  is zero at the instant of the start.
\<close>

theorem startGame_needs_two_players:
  "(length (players r) < 2 \<longrightarrow> startGame now1 now2 r = (False, r))
   \<and> (2 \<le> length (players r) \<longrightarrow>
        fst (startGame now1 now2 r) = True
      \<and> gameState (snd (startGame now1 now2 r)) = Playing
      \<and> gameStartTime (snd (startGame now1 now2 r)) = Some now1
      \<and> lastUpdate (snd (startGame now1 now2 r)) = now2
      \<and> players (snd (startGame now1 now2 r)) = players r
      \<and> ball (snd (startGame now1 now2 r)) = ball r
      \<and> score (snd (startGame now1 now2 r)) = score r
      \<and> maxPlayers (snd (startGame now1 now2 r)) = maxPlayers r
      \<and> room_id (snd (startGame now1 now2 r)) = room_id r
      \<and> timeDelta now (snd (startGame now1 now2 r)) = real_of_int (now - now2) / 1000
      \<and> timeDelta now2 (snd (startGame now1 now2 r)) = 0)"
  by (simp add: startGame_def timeDelta_def)

text \<open>One player is not enough; two are, exactly at the boundary.\<close>

theorem startGame_boundary_at_two:
  "length (players (run [AddPlayer ''a'' ''A''] (new_GameRoom ''r'' 0))) < 2
   \<and> startGame 1000 1001 (run [AddPlayer ''a'' ''A''] (new_GameRoom ''r'' 0))
       = (False, run [AddPlayer ''a'' ''A''] (new_GameRoom ''r'' 0))
   \<and> 2 \<le> length (players (run [AddPlayer ''a'' ''A'', AddPlayer ''b'' ''B''] (new_GameRoom ''r'' 0)))
   \<and> fst (startGame 1000 1001
        (run [AddPlayer ''a'' ''A'', AddPlayer ''b'' ''B''] (new_GameRoom ''r'' 0))) = True
   \<and> gameState (snd (startGame 1000 1001
        (run [AddPlayer ''a'' ''A'', AddPlayer ''b'' ''B''] (new_GameRoom ''r'' 0)))) = Playing
   \<and> gameStartTime (snd (startGame 1000 1001
        (run [AddPlayer ''a'' ''A'', AddPlayer ''b'' ''B''] (new_GameRoom ''r'' 0)))) = Some 1000
   \<and> lastUpdate (snd (startGame 1000 1001
        (run [AddPlayer ''a'' ''A'', AddPlayer ''b'' ''B''] (new_GameRoom ''r'' 0)))) = 1001
   \<and> timeDelta 1017 (snd (startGame 1000 1001
        (run [AddPlayer ''a'' ''A'', AddPlayer ''b'' ''B''] (new_GameRoom ''r'' 0)))) = 2 / 125"
  using startGame_needs_two_players
          [of "run [AddPlayer ''a'' ''A''] (new_GameRoom ''r'' 0)" 1000 1001 1017]
        startGame_needs_two_players
          [of "run [AddPlayer ''a'' ''A'', AddPlayer ''b'' ''B''] (new_GameRoom ''r'' 0)"
              1000 1001 1017]
  by (simp add: addPlayer_def new_GameRoom_def)

section \<open>The start time\<close>

lemma gameStartTime_scorePoint [simp]: "gameStartTime (scorePoint k r) = gameStartTime r"
  by (simp add: scorePoint_def Let_def split: option.splits)

lemma gameStartTime_checkBasket [simp]: "gameStartTime (checkBasket r) = gameStartTime r"
  by (simp add: checkBasket_def resetBall_def Let_def)

lemma gameStartTime_followOwner [simp]: "gameStartTime (followOwner r) = gameStartTime r"
  by (simp add: followOwner_def split: option.splits)

lemma gameStartTime_checkPlayers [simp]: "gameStartTime (checkPlayers r) = gameStartTime r"
  by (simp add: checkPlayers_def split: prod.splits)

lemma gameStartTime_updateBall [simp]:
  "gameStartTime (updateBall now1 now2 r) = gameStartTime r"
  by (simp add: updateBall_def Let_def)

lemma gameStartTime_apply_op:
  "(\<forall>n1 n2. c \<noteq> StartGame n1 n2) \<Longrightarrow> gameStartTime (apply_op c r) = gameStartTime r"
  by (cases c)
     (simp_all add: addPlayer_def removePlayer_def updatePlayerPosition_def throwBall_def
        Let_def split: option.splits)

lemma gameStartTime_run:
  "(\<forall>n1 n2. StartGame n1 n2 \<notin> set cs) \<Longrightarrow> gameStartTime (run cs r) = gameStartTime r"
proof (induction cs arbitrary: r)
  case Nil
  then show ?case by simp
next
  case (Cons c cs)
  from Cons.prems have c: "\<forall>n1 n2. c \<noteq> StartGame n1 n2"
    and cs: "\<forall>n1 n2. StartGame n1 n2 \<notin> set cs"
    by auto
  have "gameStartTime (run cs (apply_op c r)) = gameStartTime (apply_op c r)"
    by (rule Cons.IH [OF cs])
  with c show ?case by (simp add: gameStartTime_apply_op)
qed

text \<open>
  Claim C7, as the code has it. \<open>gameStartTime\<close> is \<open>null\<close> in a new room, no operation
  other than \<open>startGame\<close> changes it, and every \<open>startGame\<close> that finds two players sets it
  to the clock's value at that call, whatever it held and whatever the phase was.
\<close>

theorem gameStartTime_follows_startGame:
  "gameStartTime (new_GameRoom roomId now) = None
   \<and> ((\<forall>n1 n2. StartGame n1 n2 \<notin> set cs) \<longrightarrow> gameStartTime (run cs r) = gameStartTime r)
   \<and> gameStartTime (snd (startGame now1 now2 r))
       = (if 2 \<le> length (players r) then Some now1 else gameStartTime r)"
  by (simp add: gameStartTime_run new_GameRoom_def startGame_def)

text \<open>
  A room that is resumed without having been started plays with no start time, and its
  physics steps leave it so.
\<close>

theorem gameStartTime_stays_null_without_startGame:
  "(\<forall>n1 n2. StartGame n1 n2 \<notin>
      set [AddPlayer ''a'' ''A'', Resume, UpdateBall 1016 1016, Pause])
   \<and> gameStartTime
       (run [AddPlayer ''a'' ''A'', Resume, UpdateBall 1016 1016, Pause] (new_GameRoom ''r'' 0))
      = None"
  using gameStartTime_follows_startGame
          [of "''r''" 0 "[AddPlayer ''a'' ''A'', Resume, UpdateBall 1016 1016, Pause]"
              "new_GameRoom ''r'' 0"]
  by simp

text \<open>
  The claim as the specification states it fails twice: a second \<open>startGame\<close> stamps the
  start time again, and \<open>resume-game\<close> on a waiting room makes it play with the start
  time still \<open>null\<close>.
\<close>

theorem gameStartTime_restamped:
  "gameStartTime (run [AddPlayer ''a'' ''A'', AddPlayer ''b'' ''B'', StartGame 1000 1000]
      (new_GameRoom ''r'' 0)) = Some 1000
   \<and> gameStartTime (run [AddPlayer ''a'' ''A'', AddPlayer ''b'' ''B'', StartGame 1000 1000,
        StartGame 2000 2000] (new_GameRoom ''r'' 0)) = Some 2000
   \<and> gameState (run [Resume] (new_GameRoom ''r'' 0)) = Playing
   \<and> gameStartTime (run [Resume] (new_GameRoom ''r'' 0)) = None"
  by (simp add: addPlayer_def startGame_def new_GameRoom_def)

section \<open>Walls\<close>

lemma ball_checkPlayers:
  "ball (checkPlayers r) =
     (ball r)\<lparr>owner := fst (pickup (ball_x (ball r)) (ball_y (ball r)) (owner (ball r)) (players r))\<rparr>"
  by (simp add: checkPlayers_def case_prod_beta)

lemma checkBasket_far:
  "\<not> distance (ball_x (ball r)) (ball_y (ball r)) BASKET_X BASKET_Y < 30 \<Longrightarrow> checkBasket r = r"
  by (simp add: checkBasket_def)

text \<open>A point whose abscissa or ordinate is 30 or more away from the basket's is not in it.\<close>

lemma far_in_x: "30 \<le> \<bar>x - BASKET_X\<bar> \<Longrightarrow> \<not> distance x y BASKET_X BASKET_Y < 30"
proof -
  assume a: "30 \<le> \<bar>x - BASKET_X\<bar>"
  have "30 * 30 \<le> \<bar>x - BASKET_X\<bar> * \<bar>x - BASKET_X\<bar>"
    by (rule mult_mono [OF a a]) simp_all
  then have h: "900 \<le> (x - BASKET_X) * (x - BASKET_X)" by simp
  have "0 \<le> (y - BASKET_Y) * (y - BASKET_Y)" by (rule zero_le_square)
  with h show ?thesis unfolding distance_30 by linarith
qed

lemma far_in_y: "30 \<le> \<bar>y - BASKET_Y\<bar> \<Longrightarrow> \<not> distance x y BASKET_X BASKET_Y < 30"
proof -
  assume a: "30 \<le> \<bar>y - BASKET_Y\<bar>"
  have "30 * 30 \<le> \<bar>y - BASKET_Y\<bar> * \<bar>y - BASKET_Y\<bar>"
    by (rule mult_mono [OF a a]) simp_all
  then have h: "900 \<le> (y - BASKET_Y) * (y - BASKET_Y)" by simp
  have "0 \<le> (x - BASKET_X) * (x - BASKET_X)" by (rule zero_le_square)
  with h show ?thesis unfolding distance_30 by linarith
qed

text \<open>The fields each wall test leaves alone.\<close>

lemma wallLeft_frame [simp]:
  "ball_y (wallLeft b) = ball_y b" "ball_vy (wallLeft b) = ball_vy b"
  "owner (wallLeft b) = owner b" "inBasket (wallLeft b) = inBasket b"
  by (simp_all add: wallLeft_def)

lemma wallRight_frame [simp]:
  "ball_y (wallRight b) = ball_y b" "ball_vy (wallRight b) = ball_vy b"
  "owner (wallRight b) = owner b" "inBasket (wallRight b) = inBasket b"
  by (simp_all add: wallRight_def)

lemma wallTop_frame [simp]:
  "ball_x (wallTop b) = ball_x b" "ball_vx (wallTop b) = ball_vx b"
  "owner (wallTop b) = owner b" "inBasket (wallTop b) = inBasket b"
  by (simp_all add: wallTop_def)

lemma wallBottom_frame [simp]:
  "ball_x (wallBottom b) = ball_x b" "ball_vx (wallBottom b) = ball_vx b"
  "owner (wallBottom b) = owner b" "inBasket (wallBottom b) = inBasket b"
  by (simp_all add: wallBottom_def)

lemma wallCollision_owner [simp]: "owner (wallCollision b) = owner b"
  by (simp add: wallCollision_def)

text \<open>What the four tests of lines 117-132 do to a ball.\<close>

lemma wallCollision_left:
  assumes "ball_x b - BALL_RADIUS < 0"
  shows "ball_x (wallCollision b) = BALL_RADIUS \<and> ball_vx (wallCollision b) = \<bar>ball_vx b\<bar>"
proof -
  from assms have l: "wallLeft b = b\<lparr>ball_x := BALL_RADIUS, ball_vx := \<bar>ball_vx b\<bar>\<rparr>"
    by (simp add: wallLeft_def)
  have "\<not> BALL_RADIUS + BALL_RADIUS > GAME_WIDTH" by (simp add: constants)
  then have "wallRight (wallLeft b) = wallLeft b" by (simp add: wallRight_def l)
  then show ?thesis by (simp add: wallCollision_def l)
qed

lemma wallCollision_right:
  assumes "ball_x b + BALL_RADIUS > GAME_WIDTH"
  shows "ball_x (wallCollision b) = GAME_WIDTH - BALL_RADIUS
     \<and> ball_vx (wallCollision b) = - \<bar>ball_vx b\<bar>"
proof -
  from assms have "\<not> ball_x b - BALL_RADIUS < 0" by (simp add: constants)
  then have l: "wallLeft b = b" by (simp add: wallLeft_def)
  from assms have "wallRight b
      = b\<lparr>ball_x := GAME_WIDTH - BALL_RADIUS, ball_vx := - \<bar>ball_vx b\<bar>\<rparr>"
    by (simp add: wallRight_def)
  then show ?thesis by (simp add: wallCollision_def l)
qed

lemma wallCollision_top:
  assumes "ball_y b - BALL_RADIUS < 0"
  shows "ball_y (wallCollision b) = BALL_RADIUS \<and> ball_vy (wallCollision b) = \<bar>ball_vy b\<bar>"
proof -
  define c where "c = wallRight (wallLeft b)"
  have c: "ball_y c = ball_y b" "ball_vy c = ball_vy b" by (simp_all add: c_def)
  with assms have t: "wallTop c = c\<lparr>ball_y := BALL_RADIUS, ball_vy := \<bar>ball_vy b\<bar>\<rparr>"
    by (simp add: wallTop_def)
  have "\<not> BALL_RADIUS + BALL_RADIUS > GAME_HEIGHT" by (simp add: constants)
  then have "wallBottom (wallTop c) = wallTop c" by (simp add: wallBottom_def t)
  then show ?thesis by (simp add: wallCollision_def c_def [symmetric] t)
qed

lemma wallCollision_bottom:
  assumes "ball_y b + BALL_RADIUS > GAME_HEIGHT"
  shows "ball_y (wallCollision b) = GAME_HEIGHT - BALL_RADIUS
     \<and> ball_vy (wallCollision b) = - \<bar>ball_vy b\<bar> * 0.7"
proof -
  define c where "c = wallRight (wallLeft b)"
  have c: "ball_y c = ball_y b" "ball_vy c = ball_vy b" by (simp_all add: c_def)
  from assms have "\<not> ball_y b - BALL_RADIUS < 0" by (simp add: constants)
  with c have t: "wallTop c = c" by (simp add: wallTop_def)
  from assms c have "wallBottom c
      = c\<lparr>ball_y := GAME_HEIGHT - BALL_RADIUS, ball_vy := - \<bar>ball_vy b\<bar> * 0.7\<rparr>"
    by (simp add: wallBottom_def)
  then show ?thesis by (simp add: wallCollision_def c_def [symmetric] t)
qed

lemma applyPhysics_fields [simp]:
  "ball_x (applyPhysics dt b) = ball_x b + ball_vx b * dt * BALL_SPEED"
  "ball_y (applyPhysics dt b) = ball_y b + ball_vy b * dt * BALL_SPEED"
  "ball_vx (applyPhysics dt b) = ball_vx b * 0.98"
  "ball_vy (applyPhysics dt b) = (ball_vy b + 5 * dt) * 0.98"
  "owner (applyPhysics dt b) = owner b"
  "inBasket (applyPhysics dt b) = inBasket b"
  by (simp_all add: applyPhysics_def Let_def)

text \<open>
  The ball of a free step, when the walls have kept it out of the basket: the physics,
  then the walls, then the owner that the walk through the players finds.
\<close>

lemma updateBall_free_far:
  assumes "gameState r = Playing" and "\<not> truthy (owner (ball r))"
    and "w = wallCollision (applyPhysics (timeDelta now1 r) (ball r))"
    and "\<not> distance (ball_x w) (ball_y w) BASKET_X BASKET_Y < 30"
  shows "ball (updateBall now1 now2 r) =
           w\<lparr>owner := fst (pickup (ball_x w) (ball_y w) (owner (ball r)) (players r))\<rparr>"
  using assms by (simp add: updateBall_def Let_def checkBasket_far ball_checkPlayers)

lemma updateBall_free_far_fields:
  assumes "gameState r = Playing" and "\<not> truthy (owner (ball r))"
    and "w = wallCollision (applyPhysics (timeDelta now1 r) (ball r))"
    and "\<not> distance (ball_x w) (ball_y w) BASKET_X BASKET_Y < 30"
  shows "ball_x (ball (updateBall now1 now2 r)) = ball_x w"
    and "ball_y (ball (updateBall now1 now2 r)) = ball_y w"
    and "ball_vx (ball (updateBall now1 now2 r)) = ball_vx w"
    and "ball_vy (ball (updateBall now1 now2 r)) = ball_vy w"
  by (simp_all add: updateBall_free_far [OF assms])

text \<open>
  Claim C9. In a playing room with a free ball, let the physics of lines 108-114 move the
  ball. If its left edge is then left of the field, the step ends with the ball at
  \<open>x = BALL_RADIUS\<close> and a horizontal velocity that is the absolute value of the damped
  one; at the right wall the ball ends at \<open>GAME_WIDTH - BALL_RADIUS\<close> with the negated
  absolute value; the top wall does to \<open>y\<close> what the left one does to \<open>x\<close>; the bottom
  wall negates and also multiplies by 0.7. A free ball at \<open>x = -5\<close> with \<open>vx = -3\<close> ends,
  for any time delta that is not negative, at \<open>x = BALL_RADIUS\<close> with \<open>vx > 0\<close>.
\<close>

theorem updateBall_wall_bounce:
  assumes "gameState r = Playing" and "\<not> truthy (owner (ball r))"
  shows
   "(ball_x (ball r) + ball_vx (ball r) * timeDelta now1 r * BALL_SPEED - BALL_RADIUS < 0 \<longrightarrow>
       ball_x (ball (updateBall now1 now2 r)) = BALL_RADIUS
     \<and> ball_vx (ball (updateBall now1 now2 r)) = \<bar>ball_vx (ball r) * 0.98\<bar>)
  \<and> (ball_x (ball r) + ball_vx (ball r) * timeDelta now1 r * BALL_SPEED + BALL_RADIUS > GAME_WIDTH \<longrightarrow>
       ball_x (ball (updateBall now1 now2 r)) = GAME_WIDTH - BALL_RADIUS
     \<and> ball_vx (ball (updateBall now1 now2 r)) = - \<bar>ball_vx (ball r) * 0.98\<bar>)
  \<and> (ball_y (ball r) + ball_vy (ball r) * timeDelta now1 r * BALL_SPEED - BALL_RADIUS < 0 \<longrightarrow>
       ball_y (ball (updateBall now1 now2 r)) = BALL_RADIUS
     \<and> ball_vy (ball (updateBall now1 now2 r))
         = \<bar>(ball_vy (ball r) + 5 * timeDelta now1 r) * 0.98\<bar>)
  \<and> (ball_y (ball r) + ball_vy (ball r) * timeDelta now1 r * BALL_SPEED + BALL_RADIUS > GAME_HEIGHT \<longrightarrow>
       ball_y (ball (updateBall now1 now2 r)) = GAME_HEIGHT - BALL_RADIUS
     \<and> ball_vy (ball (updateBall now1 now2 r))
         = - \<bar>(ball_vy (ball r) + 5 * timeDelta now1 r) * 0.98\<bar> * 0.7)
  \<and> (ball_x (ball r) = - 5 \<and> ball_vx (ball r) = - 3 \<and> lastUpdate r \<le> now1 \<longrightarrow>
       ball_x (ball (updateBall now1 now2 r)) = BALL_RADIUS
     \<and> 0 < ball_vx (ball (updateBall now1 now2 r)))"
proof -
  define b where "b = applyPhysics (timeDelta now1 r) (ball r)"
  define w where "w = wallCollision b"
  have w: "w = wallCollision (applyPhysics (timeDelta now1 r) (ball r))"
    by (simp add: w_def b_def)
  note fields = updateBall_free_far_fields [OF assms w, of now2]
  have left: "ball_x (ball (updateBall now1 now2 r)) = BALL_RADIUS
      \<and> ball_vx (ball (updateBall now1 now2 r)) = \<bar>ball_vx b\<bar>"
    if "ball_x b - BALL_RADIUS < 0"
  proof -
    from wallCollision_left [OF that]
    have x: "ball_x w = BALL_RADIUS" and v: "ball_vx w = \<bar>ball_vx b\<bar>"
      by (simp_all add: w_def)
    have "\<not> distance (ball_x w) (ball_y w) BASKET_X BASKET_Y < 30"
      by (rule far_in_x) (simp add: x constants)
    from fields(1,3) [OF this] x v show ?thesis by simp
  qed
  have right: "ball_x (ball (updateBall now1 now2 r)) = GAME_WIDTH - BALL_RADIUS
      \<and> ball_vx (ball (updateBall now1 now2 r)) = - \<bar>ball_vx b\<bar>"
    if "ball_x b + BALL_RADIUS > GAME_WIDTH"
  proof -
    from wallCollision_right [OF that]
    have x: "ball_x w = GAME_WIDTH - BALL_RADIUS" and v: "ball_vx w = - \<bar>ball_vx b\<bar>"
      by (simp_all add: w_def)
    have "\<not> distance (ball_x w) (ball_y w) BASKET_X BASKET_Y < 30"
      by (rule far_in_x) (simp add: x constants)
    from fields(1,3) [OF this] x v show ?thesis by simp
  qed
  have top: "ball_y (ball (updateBall now1 now2 r)) = BALL_RADIUS
      \<and> ball_vy (ball (updateBall now1 now2 r)) = \<bar>ball_vy b\<bar>"
    if "ball_y b - BALL_RADIUS < 0"
  proof -
    from wallCollision_top [OF that]
    have y: "ball_y w = BALL_RADIUS" and v: "ball_vy w = \<bar>ball_vy b\<bar>"
      by (simp_all add: w_def)
    have "\<not> distance (ball_x w) (ball_y w) BASKET_X BASKET_Y < 30"
      by (rule far_in_y) (simp add: y constants)
    from fields(2,4) [OF this] y v show ?thesis by simp
  qed
  have bottom: "ball_y (ball (updateBall now1 now2 r)) = GAME_HEIGHT - BALL_RADIUS
      \<and> ball_vy (ball (updateBall now1 now2 r)) = - \<bar>ball_vy b\<bar> * 0.7"
    if "ball_y b + BALL_RADIUS > GAME_HEIGHT"
  proof -
    from wallCollision_bottom [OF that]
    have y: "ball_y w = GAME_HEIGHT - BALL_RADIUS" and v: "ball_vy w = - \<bar>ball_vy b\<bar> * 0.7"
      by (simp_all add: w_def)
    have "\<not> distance (ball_x w) (ball_y w) BASKET_X BASKET_Y < 30"
      by (rule far_in_y) (simp add: y constants)
    from fields(2,4) [OF this] y v show ?thesis by simp
  qed
  have example: "ball_x (ball (updateBall now1 now2 r)) = BALL_RADIUS
      \<and> 0 < ball_vx (ball (updateBall now1 now2 r))"
    if "ball_x (ball r) = - 5" and "ball_vx (ball r) = - 3" and "lastUpdate r \<le> now1"
  proof -
    from that(3) have "0 \<le> timeDelta now1 r" by (simp add: timeDelta_def)
    then have "0 \<le> 3 * timeDelta now1 r * BALL_SPEED" by (simp add: constants)
    with that(1,2) have "ball_x b - BALL_RADIUS < 0" by (simp add: b_def constants)
    from left [OF this] that(2) show ?thesis by (simp add: b_def)
  qed
  from left right top bottom example show ?thesis
    by (simp add: b_def)
qed
text \<open>
  Sixteen milliseconds on a ball beyond the left and the top wall, and on one beyond the
  right and the bottom wall.
\<close>

theorem updateBall_wall_bounce_examples:
  "gameState leftTopRoom = Playing \<and> \<not> truthy (owner (ball leftTopRoom))
   \<and> ball_x (ball leftTopRoom) = - 5 \<and> ball_vx (ball leftTopRoom) = - 3
   \<and> lastUpdate leftTopRoom \<le> 1016
   \<and> ball_x (ball (updateBall 1016 1016 leftTopRoom)) = 10
   \<and> ball_vx (ball (updateBall 1016 1016 leftTopRoom)) = 147 / 50
   \<and> ball_y (ball (updateBall 1016 1016 leftTopRoom)) = 10
   \<and> ball_vy (ball (updateBall 1016 1016 leftTopRoom)) = 1127 / 1250
   \<and> gameState rightBottomRoom = Playing \<and> \<not> truthy (owner (ball rightBottomRoom))
   \<and> ball_x (ball (updateBall 1016 1016 rightBottomRoom)) = 1014
   \<and> ball_vx (ball (updateBall 1016 1016 rightBottomRoom)) = - (147 / 50)
   \<and> ball_y (ball (updateBall 1016 1016 rightBottomRoom)) = 590
   \<and> ball_vy (ball (updateBall 1016 1016 rightBottomRoom)) = - (9261 / 12500)"
proof -
  have a: "gameState leftTopRoom = Playing" "\<not> truthy (owner (ball leftTopRoom))"
    by (simp_all add: leftTopRoom_def)
  have b: "gameState rightBottomRoom = Playing" "\<not> truthy (owner (ball rightBottomRoom))"
    by (simp_all add: rightBottomRoom_def)
  have fa: "ball_x (ball leftTopRoom) = - 5" "ball_vx (ball leftTopRoom) = - 3"
    "ball_y (ball leftTopRoom) = 5" "ball_vy (ball leftTopRoom) = - 1"
    "timeDelta 1016 leftTopRoom = 2 / 125" "lastUpdate leftTopRoom \<le> 1016"
    by (simp_all add: leftTopRoom_def timeDelta_def)
  have fb: "ball_x (ball rightBottomRoom) = 1020" "ball_vx (ball rightBottomRoom) = 3"
    "ball_y (ball rightBottomRoom) = 595" "ball_vy (ball rightBottomRoom) = 1"
    "timeDelta 1016 rightBottomRoom = 2 / 125"
    by (simp_all add: rightBottomRoom_def timeDelta_def)
  from updateBall_wall_bounce [OF a, of 1016 1016] updateBall_wall_bounce [OF b, of 1016 1016]
  show ?thesis
    by (simp add: a b fa fb constants)
qed

section \<open>Throwing\<close>

lemma ownedRoom_eq:
  "ownedRoom =
     \<lparr>room_id = ''r'',
      players =
        [(''a'', \<lparr>player_id = ''a'', player_name = ''Ann'', team = Team1, player_x = 500,
                  player_y = 290, player_vx = 0, player_vy = 0, hasBall = True,
                  player_score = 0, active = True\<rparr>),
         (''b'', \<lparr>player_id = ''b'', player_name = ''Bob'', team = Team1, player_x = 100,
                  player_y = 300, player_vx = 0, player_vy = 0, hasBall = False,
                  player_score = 0, active = True\<rparr>)],
      ball = \<lparr>ball_x = 512, ball_y = 300, ball_vx = 0, ball_vy = 49 / 625,
               owner = Some ''a'', inBasket = False\<rparr>,
      score = \<lparr>team1 = 0, team2 = 0\<rparr>, gameState = Playing, lastUpdate = 1016,
      gameStartTime = Some 1000, maxPlayers = 6\<rparr>"
  by (simp add: ownedRoom_def room_defs constants distance_30 distance_35 Let_def)

text \<open>
  Claim C3, as the code has it, for a direction and a power that are numbers.
  \<open>throwBall\<close> changes nothing when the ball has no owner. When it has one, a player of
  the room, the strength is \<open>min(power, 100) / 100\<close>: the power is capped at 100 and not
  raised to 0, so the strength of a numeric power is at most 1, and is at least 0 when
  the power is. The velocity becomes \<open>(cos direction, sin direction)\<close> times the
  strength, the ball keeps its position, the owner is cleared and so is the thrower's
  \<open>hasBall\<close>. With direction 0 and power 100 the velocity is \<open>(1, 0)\<close>.
\<close>

theorem throwBall_caps_power_at_100:
  "(\<not> truthy (owner (ball r)) \<longrightarrow> throwBall direction pwr r = r)
   \<and> (owner (ball r) = Some k \<and> k \<noteq> [] \<and> map_of (players r) k = Some ownerP \<longrightarrow>
        ball_vx (ball (throwBall direction pwr r)) = cos direction * (min pwr 100 / 100)
      \<and> ball_vy (ball (throwBall direction pwr r)) = sin direction * (min pwr 100 / 100)
      \<and> owner (ball (throwBall direction pwr r)) = None
      \<and> ball_x (ball (throwBall direction pwr r)) = ball_x (ball r)
      \<and> ball_y (ball (throwBall direction pwr r)) = ball_y (ball r)
      \<and> inBasket (ball (throwBall direction pwr r)) = inBasket (ball r)
      \<and> players (throwBall direction pwr r)
          = AList.update k (ownerP\<lparr>hasBall := False\<rparr>) (players r)
      \<and> score (throwBall direction pwr r) = score r
      \<and> gameState (throwBall direction pwr r) = gameState r
      \<and> min pwr 100 / 100 \<le> 1
      \<and> (0 \<le> pwr \<longrightarrow> 0 \<le> min pwr 100 / 100)
      \<and> ball_vx (ball (throwBall 0 100 r)) = 1
      \<and> ball_vy (ball (throwBall 0 100 r)) = 0
      \<and> owner (ball (throwBall 0 100 r)) = None)"
  by (simp add: throwBall_def Let_def)

text \<open>
  A throw in a new room, whose ball is free, and a throw of power 250 along the x axis by
  the owner of \<open>ownedRoom\<close>.
\<close>

theorem throwBall_examples:
  "\<not> truthy (owner (ball (new_GameRoom ''r'' 0)))
   \<and> throwBall 0 100 (new_GameRoom ''r'' 0) = new_GameRoom ''r'' 0
   \<and> owner (ball ownedRoom) = Some ''a'' \<and> ''a'' \<noteq> []
   \<and> map_of (players ownedRoom) ''a''
       = Some \<lparr>player_id = ''a'', player_name = ''Ann'', team = Team1, player_x = 500,
                player_y = 290, player_vx = 0, player_vy = 0, hasBall = True,
                player_score = 0, active = True\<rparr>
   \<and> (0::real) \<le> 250
   \<and> ball_vx (ball (throwBall 0 250 ownedRoom)) = 1
   \<and> ball_vy (ball (throwBall 0 250 ownedRoom)) = 0
   \<and> owner (ball (throwBall 0 250 ownedRoom)) = None
   \<and> map_option hasBall (map_of (players (throwBall 0 250 ownedRoom)) ''a'') = Some False
   \<and> ball_vx (ball (throwBall 0 100 ownedRoom)) = 1
   \<and> ball_vy (ball (throwBall 0 100 ownedRoom)) = 0
   \<and> owner (ball (throwBall 0 100 ownedRoom)) = None"
  using throwBall_caps_power_at_100 [of "new_GameRoom ''r'' 0" 0 100]
        throwBall_caps_power_at_100
          [of ownedRoom 0 250 "''a''"
              "\<lparr>player_id = ''a'', player_name = ''Ann'', team = Team1, player_x = 500,
                player_y = 290, player_vx = 0, player_vy = 0, hasBall = True,
                player_score = 0, active = True\<rparr>"]
  by (simp add: ownedRoom_eq new_GameRoom_def centerBall_def)

text \<open>
  The claim as the specification states it fails for a negative power: the code does
  not clamp it to 0, so the ball leaves against the direction of the throw, where a
  power clamped to \<open>[0, 100]\<close> would leave it at rest.
\<close>

theorem throwBall_negative_power:
  "owner (ball ownedRoom) = Some ''a''
   \<and> ball_vx (ball (throwBall 0 (- 50) ownedRoom)) = - (1 / 2)
   \<and> cos 0 * (max 0 (min (- 50) 100) / 100) = (0::real)"
  by (simp add: ownedRoom_eq throwBall_def Let_def)

section \<open>Joining\<close>










section \<open>What a join leaves alone\<close>

lemma update_fresh: "k \<notin> fst ` set al \<Longrightarrow> AList.update k v al = al @ [(k, v)]"
  by (induction al) auto

text \<open>
  Claim C10, as the code has it. Whatever the phase, \<open>addPlayer\<close> succeeds on a room that
  is not full, and then changes nothing but the \<open>players\<close> map: the phase, the ball, the
  score, the start time, the physics clock, the capacity and the room id stay, and so
  does the entry of every player whose id is not the joining one. The joining id maps
  to the new player; when it was not in the room, the new entry is added after all the
  others.
\<close>

theorem addPlayer_changes_players_only:
  "length (players r) < maxPlayers r \<longrightarrow>
       fst (addPlayer playerId nm r) = True
     \<and> gameState (snd (addPlayer playerId nm r)) = gameState r
     \<and> ball (snd (addPlayer playerId nm r)) = ball r
     \<and> score (snd (addPlayer playerId nm r)) = score r
     \<and> gameStartTime (snd (addPlayer playerId nm r)) = gameStartTime r
     \<and> lastUpdate (snd (addPlayer playerId nm r)) = lastUpdate r
     \<and> maxPlayers (snd (addPlayer playerId nm r)) = maxPlayers r
     \<and> room_id (snd (addPlayer playerId nm r)) = room_id r
     \<and> (\<forall>k. k \<noteq> playerId \<longrightarrow>
           map_of (players (snd (addPlayer playerId nm r))) k = map_of (players r) k)
     \<and> map_of (players (snd (addPlayer playerId nm r))) playerId
         = Some (newPlayer playerId nm (length (players r)))
     \<and> (playerId \<notin> fst ` set (players r) \<longrightarrow>
           players (snd (addPlayer playerId nm r))
           = players r @ [(playerId, newPlayer playerId nm (length (players r)))])"
  by (simp add: addPlayer_def AList.update_conv' update_fresh)

text \<open>A third player joins \<open>ownedRoom\<close>, which is playing; a first one joins a paused room.\<close>

theorem addPlayer_while_playing:
  "length (players ownedRoom) < maxPlayers ownedRoom
   \<and> gameState ownedRoom = Playing
   \<and> ''c'' \<noteq> ''a'' \<and> ''c'' \<noteq> ''b'' \<and> ''c'' \<notin> fst ` set (players ownedRoom)
   \<and> fst (addPlayer ''c'' ''Cy'' ownedRoom) = True
   \<and> gameState (snd (addPlayer ''c'' ''Cy'' ownedRoom)) = Playing
   \<and> ball (snd (addPlayer ''c'' ''Cy'' ownedRoom)) = ball ownedRoom
   \<and> score (snd (addPlayer ''c'' ''Cy'' ownedRoom)) = score ownedRoom
   \<and> map_of (players (snd (addPlayer ''c'' ''Cy'' ownedRoom))) ''a''
       = map_of (players ownedRoom) ''a''
   \<and> map_of (players (snd (addPlayer ''c'' ''Cy'' ownedRoom))) ''b''
       = map_of (players ownedRoom) ''b''
   \<and> players (snd (addPlayer ''c'' ''Cy'' ownedRoom))
       = players ownedRoom @ [(''c'', newPlayer ''c'' ''Cy'' 2)]
   \<and> length (players (run [Pause] (new_GameRoom ''r'' 0)))
       < maxPlayers (run [Pause] (new_GameRoom ''r'' 0))
   \<and> fst (addPlayer ''a'' ''Ann'' (run [Pause] (new_GameRoom ''r'' 0))) = True
   \<and> gameState (snd (addPlayer ''a'' ''Ann'' (run [Pause] (new_GameRoom ''r'' 0)))) = Paused"
proof -
  have h: "length (players ownedRoom) < maxPlayers ownedRoom"
    "''c'' \<notin> fst ` set (players ownedRoom)" "gameState ownedRoom = Playing"
    "length (players ownedRoom) = 2"
    by (simp_all add: ownedRoom_eq)
  have p: "length (players (run [Pause] (new_GameRoom ''r'' 0)))
             < maxPlayers (run [Pause] (new_GameRoom ''r'' 0))"
    "gameState (run [Pause] (new_GameRoom ''r'' 0)) = Paused"
    by (simp_all add: new_GameRoom_def)
  note c = addPlayer_changes_players_only [of ownedRoom "''c''" "''Cy''"]
  from c h have "\<forall>k. k \<noteq> ''c'' \<longrightarrow>
      map_of (players (snd (addPlayer ''c'' ''Cy'' ownedRoom))) k = map_of (players ownedRoom) k"
    by blast
  then have others:
    "map_of (players (snd (addPlayer ''c'' ''Cy'' ownedRoom))) ''a'' = map_of (players ownedRoom) ''a''"
    "map_of (players (snd (addPlayer ''c'' ''Cy'' ownedRoom))) ''b'' = map_of (players ownedRoom) ''b''"
    by simp_all
  from c h have rest:
    "fst (addPlayer ''c'' ''Cy'' ownedRoom) = True"
    "gameState (snd (addPlayer ''c'' ''Cy'' ownedRoom)) = gameState ownedRoom"
    "ball (snd (addPlayer ''c'' ''Cy'' ownedRoom)) = ball ownedRoom"
    "score (snd (addPlayer ''c'' ''Cy'' ownedRoom)) = score ownedRoom"
    "players (snd (addPlayer ''c'' ''Cy'' ownedRoom))
       = players ownedRoom @ [(''c'', newPlayer ''c'' ''Cy'' (length (players ownedRoom)))]"
    by blast+
  from addPlayer_changes_players_only [of "run [Pause] (new_GameRoom ''r'' 0)" "''a''" "''Ann''"] p
  have paused:
    "fst (addPlayer ''a'' ''Ann'' (run [Pause] (new_GameRoom ''r'' 0))) = True"
    "gameState (snd (addPlayer ''a'' ''Ann'' (run [Pause] (new_GameRoom ''r'' 0))))
       = gameState (run [Pause] (new_GameRoom ''r'' 0))"
    by blast+
  show ?thesis
    using h p others rest paused by simp
qed

text \<open>
  The claim as the specification states it fails when the joining socket is already a
  player of the room: \<open>Map.set\<close> replaces that entry by a new one. Here the owner of the
  ball joins again and is back at the spawn point, without the ball flag.
\<close>

theorem addPlayer_replaces_player_of_same_id:
  "length (players ownedRoom) < maxPlayers ownedRoom
   \<and> fst (addPlayer ''a'' ''Ann'' ownedRoom) = True
   \<and> map_option player_x (map_of (players ownedRoom) ''a'') = Some 500
   \<and> map_option hasBall (map_of (players ownedRoom) ''a'') = Some True
   \<and> map_option player_x (map_of (players (snd (addPlayer ''a'' ''Ann'' ownedRoom))) ''a'')
       = Some 100
   \<and> map_option hasBall (map_of (players (snd (addPlayer ''a'' ''Ann'' ownedRoom))) ''a'')
       = Some False"
  by (simp add: ownedRoom_eq addPlayer_def newPlayer_def)

section \<open>Scoring\<close>

lemma score_checkPlayers [simp]: "score (checkPlayers r) = score r"
  by (simp add: checkPlayers_def split: prod.splits)

lemma score_followOwner [simp]: "score (followOwner r) = score r"
  by (simp add: followOwner_def split: option.splits)

lemma score_resetBall [simp]: "score (resetBall r) = score r"
  by (simp add: resetBall_def)

text \<open>
  The basket test runs in the branch of line 106, where \<open>this.ball.owner\<close> is falsy, and
  hands that owner to \<open>scorePoint\<close>, which returns at line 164.
\<close>

lemma checkBasket_free:
  "\<not> truthy (owner (ball r)) \<Longrightarrow>
     checkBasket r =
       (if distance (ball_x (ball r)) (ball_y (ball r)) BASKET_X BASKET_Y < 30
        then resetBall (r\<lparr>ball := (ball r)\<lparr>inBasket := True\<rparr>\<rparr>) else r)"
  by (simp add: checkBasket_def scorePoint_def Let_def)

text \<open>So no physics step changes the score of a team or of a player.\<close>

lemma updateBall_score: "score (updateBall now1 now2 r) = score r"
  by (simp add: updateBall_def Let_def checkBasket_free)

lemma score_apply_op: "score (apply_op c r) = score r"
  by (cases c)
     (simp_all add: updateBall_score addPlayer_def removePlayer_def updatePlayerPosition_def
        throwBall_def startGame_def Let_def split: option.splits)

lemma score_run: "score (run cs r) = score r"
  by (induction cs arbitrary: r) (simp_all add: score_apply_op)

lemma score_always_zero: "score (run cs (new_GameRoom roomId now)) = \<lparr>team1 = 0, team2 = 0\<rparr>"
  by (simp add: score_run) (simp add: new_GameRoom_def)

lemma shotRoom_eq:
  "shotRoom =
     \<lparr>room_id = ''r'',
      players =
        [(''a'', \<lparr>player_id = ''a'', player_name = ''Ann'', team = Team1, player_x = 900,
                  player_y = 140, player_vx = 0, player_vy = 0, hasBall = False,
                  player_score = 0, active = True\<rparr>),
         (''b'', \<lparr>player_id = ''b'', player_name = ''Bob'', team = Team1, player_x = 100,
                  player_y = 300, player_vx = 0, player_vy = 0, hasBall = False,
                  player_score = 0, active = True\<rparr>)],
      ball = \<lparr>ball_x = 915, ball_y = 155, ball_vx = 1 / 10, ball_vy = 0,
               owner = None, inBasket = False\<rparr>,
      score = \<lparr>team1 = 0, team2 = 0\<rparr>, gameState = Playing, lastUpdate = 1032,
      gameStartTime = Some 1000, maxPlayers = 6\<rparr>"
  by (simp add: shotRoom_def ownedRoom_eq room_defs constants distance_30 distance_35 Let_def)

text \<open>
  Claim C1 on the code. Player \<open>a\<close> of \<open>team1\<close> has thrown the ball from beside the
  basket. The next step moves the free ball to a point within 30 units of the basket
  and resets it to the centre, free and at rest, with every \<open>hasBall\<close> cleared; but no
  point is awarded, to the team or to the player.
\<close>

theorem basket_of_owned_shot_awards_nothing:
  "gameState shotRoom = Playing
   \<and> owner (ball shotRoom) = None
   \<and> map_option team (map_of (players shotRoom) ''a'') = Some Team1
   \<and> distance (ball_x (wallCollision (applyPhysics (timeDelta 1048 shotRoom) (ball shotRoom))))
        (ball_y (wallCollision (applyPhysics (timeDelta 1048 shotRoom) (ball shotRoom))))
        BASKET_X BASKET_Y < 30
   \<and> ball (updateBall 1048 1048 shotRoom) = centerBall
   \<and> map (\<lambda>(k, player). hasBall player) (players (updateBall 1048 1048 shotRoom))
       = [False, False]
   \<and> score shotRoom = \<lparr>team1 = 0, team2 = 0\<rparr>
   \<and> score (updateBall 1048 1048 shotRoom) = \<lparr>team1 = 0, team2 = 0\<rparr>
   \<and> map_option player_score (map_of (players (updateBall 1048 1048 shotRoom)) ''a'') = Some 0"
  by (simp add: shotRoom_eq room_defs constants distance_30 distance_35 Let_def)

section \<open>Possession\<close>

lemma in_update_iff:
  "distinct (map fst al) \<Longrightarrow>
     (k', v') \<in> set (AList.update k v al) \<longleftrightarrow> (k' = k \<and> v' = v) \<or> (k' \<noteq> k \<and> (k', v') \<in> set al)"
  by (induction al) (auto simp: rev_image_eqI)

lemma in_delete_iff: "(k', v') \<in> set (AList.delete k al) \<longleftrightarrow> k' \<noteq> k \<and> (k', v') \<in> set al"
  by (auto simp: AList.delete_eq)

lemma keys_update_present:
  "map_of al k = Some v \<Longrightarrow> fst ` set (AList.update k v' al) = fst ` set al"
  by (auto simp: AList.dom_update map_of_Some_key)

lemma map_of_distinct_in: "distinct (map fst al) \<Longrightarrow> map_of al k = Some v \<longleftrightarrow> (k, v) \<in> set al"
  by simp

text \<open>The walk through the players.\<close>

lemma pickup_owned: "truthy ow \<Longrightarrow> pickup bx by0 ow ps = (ow, ps)"
  by (induction ps) auto

lemma pickup_free:
  assumes "\<not> truthy ow"
    and "\<forall>(k, player) \<in> set ps. player_id player = k \<and> k \<noteq> []"
    and "\<forall>(k, player) \<in> set ps. \<not> hasBall player"
    and "distinct (map fst ps)"
  shows "(fst (pickup bx by0 ow ps) = ow \<and> snd (pickup bx by0 ow ps) = ps)
       \<or> (\<exists>k \<in> fst ` set ps. fst (pickup bx by0 ow ps) = Some k
            \<and> (\<forall>(k', player) \<in> set (snd (pickup bx by0 ow ps)).
                  player_id player = k' \<and> (hasBall player \<longleftrightarrow> k' = k)))"
  using assms
proof (induction ps)
  case Nil
  then show ?case by simp
next
  case (Cons a ps)
  obtain k p where a: "a = (k, p)" by (cases a)
  from Cons.prems a have idk: "player_id p = k" and kne: "k \<noteq> []" and nb: "\<not> hasBall p"
    and knot: "k \<notin> fst ` set ps"
    by auto
  show ?case
  proof (cases "distance bx by0 (player_x p) (player_y p) < 35")
    case True
    from kne have "truthy (Some k)" by simp
    then have rest: "pickup bx by0 (Some k) ps = (Some k, ps)" by (rule pickup_owned)
    from Cons.prems(1) True have
      "pickup bx by0 ow (a # ps) = (Some k, (k, p\<lparr>hasBall := True\<rparr>) # ps)"
      by (simp add: a idk rest)
    moreover from Cons.prems(2,3) knot
    have "\<forall>(k', player) \<in> set ps. player_id player = k' \<and> (hasBall player \<longleftrightarrow> k' = k)"
      by force
    ultimately show ?thesis using idk by (auto simp: a)
  next
    case False
    with Cons.prems(1) have step: "pickup bx by0 ow ((k, p) # ps)
        = (fst (pickup bx by0 ow ps), (k, p) # snd (pickup bx by0 ow ps))"
      by (simp add: case_prod_beta)
    from Cons.prems have ih: "(fst (pickup bx by0 ow ps) = ow \<and> snd (pickup bx by0 ow ps) = ps)
       \<or> (\<exists>k \<in> fst ` set ps. fst (pickup bx by0 ow ps) = Some k
            \<and> (\<forall>(k', player) \<in> set (snd (pickup bx by0 ow ps)).
                  player_id player = k' \<and> (hasBall player \<longleftrightarrow> k' = k)))"
      by (intro Cons.IH) auto
    then show ?thesis
    proof
      assume "fst (pickup bx by0 ow ps) = ow \<and> snd (pickup bx by0 ow ps) = ps"
      then show ?thesis unfolding a step by simp
    next
      assume "\<exists>k \<in> fst ` set ps. fst (pickup bx by0 ow ps) = Some k
            \<and> (\<forall>(k', player) \<in> set (snd (pickup bx by0 ow ps)).
                  player_id player = k' \<and> (hasBall player \<longleftrightarrow> k' = k))"
      then obtain j where j: "j \<in> fst ` set ps" "fst (pickup bx by0 ow ps) = Some j"
        "\<forall>(k', player) \<in> set (snd (pickup bx by0 ow ps)).
                  player_id player = k' \<and> (hasBall player \<longleftrightarrow> k' = j)"
        by blast
      from j(1) knot have "k \<noteq> j" by auto
      with j idk nb have "j \<in> fst ` set ((k, p) # ps)
        \<and> fst (pickup bx by0 ow ((k, p) # ps)) = Some j
        \<and> (\<forall>(k', player) \<in> set (snd (pickup bx by0 ow ((k, p) # ps))).
                  player_id player = k' \<and> (hasBall player \<longleftrightarrow> k' = j))"
        unfolding step by simp
      then show ?thesis unfolding a by blast
    qed
  qed
qed

lemma pickup_entries:
  "(k, q) \<in> set (snd (pickup bx by0 ow ps)) \<Longrightarrow>
     \<exists>p. (k, p) \<in> set ps \<and> (q = p \<or> q = p\<lparr>hasBall := True\<rparr>)"
  by (induction bx by0 ow ps rule: pickup.induct)
     (auto simp: case_prod_beta split: if_splits)

lemma wellFormed_iff:
  "wellFormed r \<longleftrightarrow>
     distinct (map fst (players r))
     \<and> (\<forall>k p. (k, p) \<in> set (players r) \<longrightarrow> player_id p = k \<and> k \<noteq> [])"
  by (auto simp: wellFormed_def)

lemma fst_comp_values: "fst \<circ> (\<lambda>(k, p). (k, f p)) = fst"
  by (auto simp: fun_eq_iff)

lemma in_map_values:
  "(k, q) \<in> set (map (\<lambda>(k, p). (k, f p)) ps) \<longleftrightarrow> (\<exists>p. (k, p) \<in> set ps \<and> q = f p)"
  by (induction ps) auto

text \<open>The shape of the \<open>players\<close> map survives every operation.\<close>

lemma wellFormed_addPlayer:
  "wellFormed r \<Longrightarrow> playerId \<noteq> [] \<Longrightarrow> wellFormed (snd (addPlayer playerId nm r))"
  by (auto simp: wellFormed_iff addPlayer_def AList.distinct_update in_update_iff newPlayer_def)

lemma wellFormed_removePlayer: "wellFormed r \<Longrightarrow> wellFormed (snd (removePlayer playerId r))"
  by (auto simp: wellFormed_iff removePlayer_def Let_def AList.distinct_delete in_delete_iff)

lemma wellFormed_updatePlayerPosition:
  "wellFormed r \<Longrightarrow> wellFormed (updatePlayerPosition playerId x y vx vy r)"
  by (auto simp: wellFormed_iff updatePlayerPosition_def AList.distinct_update in_update_iff
        split: option.splits)

lemma wellFormed_throwBall: "wellFormed r \<Longrightarrow> wellFormed (throwBall direction pwr r)"
  by (auto simp: wellFormed_iff throwBall_def Let_def AList.distinct_update in_update_iff
        split: option.splits)

lemma wellFormed_ball_update [simp]: "wellFormed (r\<lparr>ball := b\<rparr>) = wellFormed r"
  by (simp add: wellFormed_def)

lemma wellFormed_lastUpdate_update [simp]: "wellFormed (r\<lparr>lastUpdate := t\<rparr>) = wellFormed r"
  by (simp add: wellFormed_def)

lemma wellFormed_gameState_update [simp]: "wellFormed (r\<lparr>gameState := g\<rparr>) = wellFormed r"
  by (simp add: wellFormed_def)

lemma wellFormed_gameStartTime_update [simp]:
  "wellFormed (r\<lparr>gameStartTime := t\<rparr>) = wellFormed r"
  by (simp add: wellFormed_def)

lemma wellFormed_resetBall: "wellFormed r \<Longrightarrow> wellFormed (resetBall r)"
  by (auto simp: wellFormed_iff resetBall_def fst_comp_values in_map_values)

lemma wellFormed_followOwner: "wellFormed r \<Longrightarrow> wellFormed (followOwner r)"
  by (simp add: followOwner_def split: option.splits)

lemma wellFormed_checkPlayers: "wellFormed r \<Longrightarrow> wellFormed (checkPlayers r)"
proof -
  assume w: "wellFormed r"
  have p: "players (checkPlayers r)
      = snd (pickup (ball_x (ball r)) (ball_y (ball r)) (owner (ball r)) (players r))"
    by (simp add: checkPlayers_def case_prod_beta)
  from w have "distinct (map fst (players (checkPlayers r)))"
    by (simp add: p pickup_keys wellFormed_def)
  moreover have "player_id q = k \<and> k \<noteq> []" if "(k, q) \<in> set (players (checkPlayers r))" for k q
  proof -
    from that obtain p0 where "(k, p0) \<in> set (players r)" "q = p0 \<or> q = p0\<lparr>hasBall := True\<rparr>"
      unfolding p using pickup_entries by blast
    with w show ?thesis by (auto simp: wellFormed_iff)
  qed
  ultimately show ?thesis by (auto simp: wellFormed_iff)
qed

lemma checkBasket_cases:
  "\<not> truthy (owner (ball r)) \<Longrightarrow>
     checkBasket r = r \<or> checkBasket r = resetBall (r\<lparr>ball := (ball r)\<lparr>inBasket := True\<rparr>\<rparr>)"
  by (simp add: checkBasket_free)

lemma wellFormed_updateBall: "wellFormed r \<Longrightarrow> wellFormed (updateBall now1 now2 r)"
proof -
  assume w: "wellFormed r"
  show ?thesis
  proof (cases "gameState r = Playing")
    case False
    with w show ?thesis by (simp add: updateBall_def)
  next
    case True
    show ?thesis
    proof (cases "truthy (owner (ball r))")
      case owned: True
      with True w show ?thesis
        by (simp add: updateBall_def Let_def wellFormed_checkPlayers wellFormed_followOwner)
    next
      case free: False
      define r1 where "r1 = r\<lparr>lastUpdate := now2,
        ball := wallCollision (applyPhysics (timeDelta now1 r) (ball r))\<rparr>"
      have f1: "\<not> truthy (owner (ball r1))" using free by (simp add: r1_def)
      have w1: "wellFormed r1" using w by (simp add: r1_def)
      from checkBasket_cases [OF f1] w1 have "wellFormed (checkBasket r1)"
        by (auto simp: wellFormed_resetBall)
      then have "wellFormed (checkPlayers (checkBasket r1))" by (rule wellFormed_checkPlayers)
      with True free show ?thesis by (simp add: updateBall_def Let_def r1_def)
    qed
  qed
qed

lemma wellFormed_apply_op:
  "wellFormed r \<Longrightarrow> (\<forall>k nm. c = AddPlayer k nm \<longrightarrow> k \<noteq> []) \<Longrightarrow> wellFormed (apply_op c r)"
  by (cases c)
     (simp_all add: wellFormed_addPlayer wellFormed_removePlayer wellFormed_updatePlayerPosition
        wellFormed_throwBall wellFormed_updateBall startGame_def)

lemma wellFormed_new_GameRoom: "wellFormed (new_GameRoom roomId now)"
  by (simp add: wellFormed_def new_GameRoom_def)

text \<open>Rules to use and to establish the parts of the invariant.\<close>

lemma wellFormed_distinct: "wellFormed r \<Longrightarrow> distinct (map fst (players r))"
  by (simp add: wellFormed_def)

lemma wellFormed_key: "wellFormed r \<Longrightarrow> (k, p) \<in> set (players r) \<Longrightarrow> player_id p = k \<and> k \<noteq> []"
  by (auto simp: wellFormed_def)

lemma ownerIsPlayerI:
  "(\<And>k. owner (ball r) = Some k \<Longrightarrow> k \<in> fst ` set (players r)) \<Longrightarrow> ownerIsPlayer r"
  by (simp add: ownerIsPlayer_def split: option.splits)

lemma ownerIsPlayerD: "ownerIsPlayer r \<Longrightarrow> owner (ball r) = Some k \<Longrightarrow> k \<in> fst ` set (players r)"
  by (simp add: ownerIsPlayer_def)

lemma flagOnlyOnOwnerI:
  "(\<And>k p. (k, p) \<in> set (players r) \<Longrightarrow> hasBall p \<Longrightarrow> owner (ball r) = Some k)
     \<Longrightarrow> flagOnlyOnOwner r"
  by (auto simp: flagOnlyOnOwner_def)

lemma flagOnlyOnOwnerD:
  "flagOnlyOnOwner r \<Longrightarrow> (k, p) \<in> set (players r) \<Longrightarrow> hasBall p \<Longrightarrow> owner (ball r) = Some k"
  by (auto simp: flagOnlyOnOwner_def)

lemma ownerHasFlagI:
  "(\<And>k p. (k, p) \<in> set (players r) \<Longrightarrow> owner (ball r) = Some k \<Longrightarrow> hasBall p)
     \<Longrightarrow> ownerHasFlag r"
  by (auto simp: ownerHasFlag_def)

lemma ownerHasFlagD:
  "ownerHasFlag r \<Longrightarrow> (k, p) \<in> set (players r) \<Longrightarrow> owner (ball r) = Some k \<Longrightarrow> hasBall p"
  by (auto simp: ownerHasFlag_def)

text \<open>
  A join keeps the owner a player and the flag on the owner only. It keeps the flag on
  the owner unless the joining id is the owner's.
\<close>

lemma addPlayer_inv:
  assumes w: "wellFormed r" and o: "ownerIsPlayer r" and f: "flagOnlyOnOwner r"
  shows "ownerIsPlayer (snd (addPlayer playerId nm r))"
    and "flagOnlyOnOwner (snd (addPlayer playerId nm r))"
    and "ownerHasFlag r \<Longrightarrow> owner (ball r) \<noteq> Some playerId \<Longrightarrow>
           ownerHasFlag (snd (addPlayer playerId nm r))"
proof -
  note upd = in_update_iff [OF wellFormed_distinct [OF w]]
  show "ownerIsPlayer (snd (addPlayer playerId nm r))"
    using ownerIsPlayerD [OF o]
    by (intro ownerIsPlayerI) (simp add: addPlayer_def AList.dom_update split: if_splits)
  show "flagOnlyOnOwner (snd (addPlayer playerId nm r))"
    using flagOnlyOnOwnerD [OF f]
    by (intro flagOnlyOnOwnerI) (auto simp: addPlayer_def upd newPlayer_def split: if_splits)
  show "ownerHasFlag (snd (addPlayer playerId nm r))"
    if h: "ownerHasFlag r" and n: "owner (ball r) \<noteq> Some playerId"
    using ownerHasFlagD [OF h] n
    by (intro ownerHasFlagI) (auto simp: addPlayer_def upd split: if_splits)
qed

text \<open>A removal keeps all three, and clears the owner when the owner leaves.\<close>

lemma keys_delete: "fst ` set (AList.delete k al) = fst ` set al - {k}"
  by (force simp: in_delete_iff)

lemma removePlayer_inv:
  assumes w: "wellFormed r" and o: "ownerIsPlayer r" and f: "flagOnlyOnOwner r"
  shows "ownerIsPlayer (snd (removePlayer playerId r))"
    and "flagOnlyOnOwner (snd (removePlayer playerId r))"
    and "ownerHasFlag r \<Longrightarrow> ownerHasFlag (snd (removePlayer playerId r))"
proof -
  show "ownerIsPlayer (snd (removePlayer playerId r))"
    using ownerIsPlayerD [OF o]
    by (intro ownerIsPlayerI) (simp add: removePlayer_def Let_def keys_delete split: if_splits)
  show "flagOnlyOnOwner (snd (removePlayer playerId r))"
    using flagOnlyOnOwnerD [OF f]
    by (intro flagOnlyOnOwnerI) (auto simp: removePlayer_def Let_def in_delete_iff split: if_splits)
  show "ownerHasFlag (snd (removePlayer playerId r))" if h: "ownerHasFlag r"
    using ownerHasFlagD [OF h]
    by (intro ownerHasFlagI) (auto simp: removePlayer_def Let_def in_delete_iff split: if_splits)
qed

lemma removePlayer_clears_owner:
  "owner (ball r) = Some playerId \<Longrightarrow> owner (ball (snd (removePlayer playerId r))) = None"
  by (simp add: removePlayer_def Let_def)

text \<open>A move changes no flag and no owner.\<close>

lemma updatePlayerPosition_inv:
  assumes w: "wellFormed r" and o: "ownerIsPlayer r" and f: "flagOnlyOnOwner r"
  shows "ownerIsPlayer (updatePlayerPosition playerId x y vx vy r)"
    and "flagOnlyOnOwner (updatePlayerPosition playerId x y vx vy r)"
    and "ownerHasFlag r \<Longrightarrow> ownerHasFlag (updatePlayerPosition playerId x y vx vy r)"
proof -
  note upd = in_update_iff [OF wellFormed_distinct [OF w]]
  note mem = map_of_distinct_in [OF wellFormed_distinct [OF w]]
  show "ownerIsPlayer (updatePlayerPosition playerId x y vx vy r)"
    using ownerIsPlayerD [OF o]
    by (intro ownerIsPlayerI)
       (simp add: updatePlayerPosition_def AList.dom_update split: option.splits)
  show "flagOnlyOnOwner (updatePlayerPosition playerId x y vx vy r)"
    using flagOnlyOnOwnerD [OF f]
    by (intro flagOnlyOnOwnerI)
       (auto simp: updatePlayerPosition_def upd mem split: option.splits)
  show "ownerHasFlag (updatePlayerPosition playerId x y vx vy r)" if h: "ownerHasFlag r"
    using ownerHasFlagD [OF h]
    by (intro ownerHasFlagI)
       (auto simp: updatePlayerPosition_def upd mem split: option.splits)
qed

text \<open>A throw leaves the ball free and every flag down.\<close>

lemma throwBall_inv:
  assumes w: "wellFormed r" and o: "ownerIsPlayer r" and f: "flagOnlyOnOwner r"
  shows "ownerIsPlayer (throwBall direction pwr r)"
    and "flagOnlyOnOwner (throwBall direction pwr r)"
    and "ownerHasFlag r \<Longrightarrow> ownerHasFlag (throwBall direction pwr r)"
proof -
  note upd = in_update_iff [OF wellFormed_distinct [OF w]]
  show "ownerIsPlayer (throwBall direction pwr r)"
    using ownerIsPlayerD [OF o]
    by (intro ownerIsPlayerI) (auto simp: throwBall_def Let_def split: option.splits if_splits)
  show "flagOnlyOnOwner (throwBall direction pwr r)"
    using flagOnlyOnOwnerD [OF f]
    by (intro flagOnlyOnOwnerI)
       (auto simp: throwBall_def Let_def upd split: option.splits if_splits)
  show "ownerHasFlag (throwBall direction pwr r)" if h: "ownerHasFlag r"
    using ownerHasFlagD [OF h]
    by (intro ownerHasFlagI)
       (auto simp: throwBall_def Let_def upd split: option.splits if_splits)
qed

text \<open>
  A physics step. With the ball owned, the walk through the players changes nothing.
  With the ball free, no player has the flag before the walk, whether or not the basket
  has reset the ball, and the walk gives the ball and the flag to at most one player.
\<close>

lemma checkPlayers_owned: "truthy (owner (ball r)) \<Longrightarrow> checkPlayers r = r"
  by (simp add: checkPlayers_def pickup_owned)

lemma checkPlayers_free:
  assumes w: "wellFormed r" and n: "owner (ball r) = None"
    and nf: "\<And>k p. (k, p) \<in> set (players r) \<Longrightarrow> \<not> hasBall p"
  shows "ownerIsPlayer (checkPlayers r) \<and> flagOnlyOnOwner (checkPlayers r)
       \<and> ownerHasFlag (checkPlayers r)"
proof -
  define res where
    "res = pickup (ball_x (ball r)) (ball_y (ball r)) (owner (ball r)) (players r)"
  have ow: "owner (ball (checkPlayers r)) = fst res"
    and ps: "players (checkPlayers r) = snd res"
    by (simp_all add: checkPlayers_def res_def case_prod_beta)
  have "map fst (snd res) = map fst (players r)"
    unfolding res_def by (rule pickup_keys)
  then have "set (map fst (snd res)) = set (map fst (players r))" by simp
  then have keys: "fst ` set (snd res) = fst ` set (players r)" by simp
  have "(fst res = owner (ball r) \<and> snd res = players r)
       \<or> (\<exists>k \<in> fst ` set (players r). fst res = Some k
            \<and> (\<forall>(k', player) \<in> set (snd res).
                  player_id player = k' \<and> (hasBall player \<longleftrightarrow> k' = k)))"
    unfolding res_def
  proof (rule pickup_free)
    show "\<not> truthy (owner (ball r))" by (simp add: n)
    show "\<forall>(k, player) \<in> set (players r). player_id player = k \<and> k \<noteq> []"
      using w by (simp add: wellFormed_def)
    show "\<forall>(k, player) \<in> set (players r). \<not> hasBall player"
      using nf by auto
    show "distinct (map fst (players r))" using w by (rule wellFormed_distinct)
  qed
  then show ?thesis
  proof
    assume "fst res = owner (ball r) \<and> snd res = players r"
    then have o': "owner (ball (checkPlayers r)) = None"
      and p': "players (checkPlayers r) = players r"
      by (simp_all add: ow ps n)
    have "ownerIsPlayer (checkPlayers r)" by (simp add: ownerIsPlayer_def o')
    moreover have "flagOnlyOnOwner (checkPlayers r)"
    proof (rule flagOnlyOnOwnerI)
      fix k p assume "(k, p) \<in> set (players (checkPlayers r))" and "hasBall p"
      with nf [of k p] show "owner (ball (checkPlayers r)) = Some k" by (simp add: p')
    qed
    moreover have "ownerHasFlag (checkPlayers r)"
      by (rule ownerHasFlagI) (simp add: o')
    ultimately show ?thesis by simp
  next
    assume "\<exists>k \<in> fst ` set (players r). fst res = Some k
            \<and> (\<forall>(k', player) \<in> set (snd res).
                  player_id player = k' \<and> (hasBall player \<longleftrightarrow> k' = k))"
    then obtain k where k: "k \<in> fst ` set (players r)" "fst res = Some k"
      and all: "\<forall>(k', player) \<in> set (snd res).
                  player_id player = k' \<and> (hasBall player \<longleftrightarrow> k' = k)"
      by blast
    have fl: "hasBall p \<longleftrightarrow> k' = k" if "(k', p) \<in> set (snd res)" for k' p
      using all that by fastforce
    have "ownerIsPlayer (checkPlayers r)"
    proof (rule ownerIsPlayerI)
      fix j assume "owner (ball (checkPlayers r)) = Some j"
      with k have "j \<in> fst ` set (players r)" by (simp add: ow)
      then show "j \<in> fst ` set (players (checkPlayers r))" by (simp only: ps keys)
    qed
    moreover have "flagOnlyOnOwner (checkPlayers r)"
    proof (rule flagOnlyOnOwnerI)
      fix k' p assume "(k', p) \<in> set (players (checkPlayers r))" and "hasBall p"
      then have "k' = k" using fl [of k' p] by (simp add: ps)
      then show "owner (ball (checkPlayers r)) = Some k'" by (simp add: ow k)
    qed
    moreover have "ownerHasFlag (checkPlayers r)"
    proof (rule ownerHasFlagI)
      fix k' p assume "(k', p) \<in> set (players (checkPlayers r))"
        and "owner (ball (checkPlayers r)) = Some k'"
      then show "hasBall p" using fl [of k' p] by (simp add: ps ow k)
    qed
    ultimately show ?thesis by simp
  qed
qed

lemma followOwner_frame [simp]:
  "owner (ball (followOwner r)) = owner (ball r)" "players (followOwner r) = players r"
  by (simp_all add: followOwner_def split: option.splits)

lemma updateBall_inv:
  assumes w: "wellFormed r" and o: "ownerIsPlayer r" and f: "flagOnlyOnOwner r"
  shows "ownerIsPlayer (updateBall now1 now2 r)"
    and "flagOnlyOnOwner (updateBall now1 now2 r)"
    and "ownerHasFlag r \<Longrightarrow> ownerHasFlag (updateBall now1 now2 r)"
proof -
  have "ownerIsPlayer (updateBall now1 now2 r) \<and> flagOnlyOnOwner (updateBall now1 now2 r)
      \<and> (ownerHasFlag r \<longrightarrow> ownerHasFlag (updateBall now1 now2 r))"
  proof (cases "gameState r = Playing")
    case False
    with o f show ?thesis by (simp add: updateBall_def)
  next
    case True
    show ?thesis
    proof (cases "truthy (owner (ball r))")
      case owned: True
      then have "truthy (owner (ball (followOwner (r\<lparr>lastUpdate := now2\<rparr>))))"
        by simp
      with True owned have u: "updateBall now1 now2 r = followOwner (r\<lparr>lastUpdate := now2\<rparr>)"
        by (simp add: updateBall_def Let_def checkPlayers_owned)
      have same: "players (updateBall now1 now2 r) = players r"
        "owner (ball (updateBall now1 now2 r)) = owner (ball r)"
        by (simp_all add: u)
      from o f show ?thesis
        by (simp add: ownerIsPlayer_def flagOnlyOnOwner_def ownerHasFlag_def same
              split: option.splits)
    next
      case free: False
      have none: "owner (ball r) = None"
      proof (cases "owner (ball r)")
        case None
        then show ?thesis .
      next
        case (Some k)
        with ownerIsPlayerD [OF o] obtain p where "(k, p) \<in> set (players r)" by force
        with wellFormed_key [OF w] have "k \<noteq> []" by blast
        with Some free show ?thesis by simp
      qed
      from flagOnlyOnOwnerD [OF f] none
      have down: "\<not> hasBall p" if "(k, p) \<in> set (players r)" for k p
        using that by fastforce
      define r1 where "r1 = r\<lparr>lastUpdate := now2,
        ball := wallCollision (applyPhysics (timeDelta now1 r) (ball r))\<rparr>"
      have f1: "\<not> truthy (owner (ball r1))" using free by (simp add: r1_def)
      have w1: "wellFormed r1" using w by (simp add: r1_def)
      have n1: "owner (ball r1) = None" using none by (simp add: r1_def)
      have p1: "players r1 = players r" by (simp add: r1_def)
      from checkBasket_cases [OF f1]
      have r2: "wellFormed (checkBasket r1) \<and> owner (ball (checkBasket r1)) = None
          \<and> (\<forall>k p. (k, p) \<in> set (players (checkBasket r1)) \<longrightarrow> \<not> hasBall p)"
      proof
        assume "checkBasket r1 = r1"
        with w1 n1 p1 down show ?thesis by auto
      next
        assume "checkBasket r1 = resetBall (r1\<lparr>ball := (ball r1)\<lparr>inBasket := True\<rparr>\<rparr>)"
        moreover from w1 have "wellFormed (resetBall (r1\<lparr>ball := (ball r1)\<lparr>inBasket := True\<rparr>\<rparr>))"
          by (intro wellFormed_resetBall) simp
        ultimately show ?thesis
          by (auto simp: resetBall_def centerBall_def in_map_values)
      qed
      have "ownerIsPlayer (checkPlayers (checkBasket r1))
          \<and> flagOnlyOnOwner (checkPlayers (checkBasket r1))
          \<and> ownerHasFlag (checkPlayers (checkBasket r1))"
        using r2 by (intro checkPlayers_free) auto
      moreover from True free have "updateBall now1 now2 r = checkPlayers (checkBasket r1)"
        by (simp add: updateBall_def Let_def r1_def)
      ultimately show ?thesis by simp
    qed
  qed
  then show "ownerIsPlayer (updateBall now1 now2 r)"
    and "flagOnlyOnOwner (updateBall now1 now2 r)"
    and "ownerHasFlag r \<Longrightarrow> ownerHasFlag (updateBall now1 now2 r)"
    by simp_all
qed

lemma inv_frame [simp]:
  "ownerIsPlayer (r\<lparr>gameState := g\<rparr>) = ownerIsPlayer r"
  "ownerIsPlayer (r\<lparr>lastUpdate := t\<rparr>) = ownerIsPlayer r"
  "ownerIsPlayer (r\<lparr>gameStartTime := st\<rparr>) = ownerIsPlayer r"
  "flagOnlyOnOwner (r\<lparr>gameState := g\<rparr>) = flagOnlyOnOwner r"
  "flagOnlyOnOwner (r\<lparr>lastUpdate := t\<rparr>) = flagOnlyOnOwner r"
  "flagOnlyOnOwner (r\<lparr>gameStartTime := st\<rparr>) = flagOnlyOnOwner r"
  "ownerHasFlag (r\<lparr>gameState := g\<rparr>) = ownerHasFlag r"
  "ownerHasFlag (r\<lparr>lastUpdate := t\<rparr>) = ownerHasFlag r"
  "ownerHasFlag (r\<lparr>gameStartTime := st\<rparr>) = ownerHasFlag r"
  by (simp_all add: ownerIsPlayer_def flagOnlyOnOwner_def ownerHasFlag_def split: option.splits)

text \<open>
  All operations together. The full invariant survives every operation but the join of
  the socket that owns the ball; the first two parts survive that one too.
\<close>

lemma possession_apply_op:
  assumes "wellFormed r" and "possession r"
    and "\<forall>k nm. c = AddPlayer k nm \<longrightarrow> owner (ball r) \<noteq> Some k"
  shows "possession (apply_op c r)"
proof -
  from assms(2) have o: "ownerIsPlayer r" and f: "flagOnlyOnOwner r" and h: "ownerHasFlag r"
    by (simp_all add: possession_def)
  note w = assms(1)
  show ?thesis
  proof (cases c)
    case (AddPlayer k nm)
    with assms(3) have "owner (ball r) \<noteq> Some k" by simp
    with addPlayer_inv [OF w o f, of k nm] h show ?thesis
      by (simp add: possession_def AddPlayer)
  next
    case (RemovePlayer k)
    with removePlayer_inv [OF w o f, of k] h show ?thesis by (simp add: possession_def)
  next
    case (UpdatePlayerPosition k x y vx vy)
    with updatePlayerPosition_inv [OF w o f, of k x y vx vy] h show ?thesis
      by (simp add: possession_def)
  next
    case (UpdateBall now1 now2)
    with updateBall_inv [OF w o f, of now1 now2] h show ?thesis by (simp add: possession_def)
  next
    case (ThrowBall direction pwr)
    with throwBall_inv [OF w o f, of direction pwr] h show ?thesis by (simp add: possession_def)
  next
    case (StartGame now1 now2)
    with o f h show ?thesis by (simp add: possession_def startGame_def)
  next
    case Pause
    with o f h show ?thesis by (simp add: possession_def)
  next
    case Resume
    with o f h show ?thesis by (simp add: possession_def)
  qed
qed

lemma exclusive_apply_op:
  assumes w: "wellFormed r" and o: "ownerIsPlayer r" and f: "flagOnlyOnOwner r"
  shows "ownerIsPlayer (apply_op c r) \<and> flagOnlyOnOwner (apply_op c r)"
proof (cases c)
  case (AddPlayer k nm)
  with addPlayer_inv [OF w o f, of k nm] show ?thesis by simp
next
  case (RemovePlayer k)
  with removePlayer_inv [OF w o f, of k] show ?thesis by simp
next
  case (UpdatePlayerPosition k x y vx vy)
  with updatePlayerPosition_inv [OF w o f, of k x y vx vy] show ?thesis by simp
next
  case (UpdateBall now1 now2)
  with updateBall_inv [OF w o f, of now1 now2] show ?thesis by simp
next
  case (ThrowBall direction pwr)
  with throwBall_inv [OF w o f, of direction pwr] show ?thesis by simp
next
  case (StartGame now1 now2)
  with o f show ?thesis by (simp add: startGame_def)
next
  case Pause
  with o f show ?thesis by simp
next
  case Resume
  with o f show ?thesis by simp
qed

text \<open>
  Hence in every room that sockets with non-empty ids have operated on since its
  construction, the owner is a player and no other player has the flag.
\<close>

lemma exclusive_run:
  assumes "wellFormed r" and "ownerIsPlayer r" and "flagOnlyOnOwner r"
    and "\<forall>k nm. AddPlayer k nm \<in> set cs \<longrightarrow> k \<noteq> []"
  shows "wellFormed (run cs r) \<and> ownerIsPlayer (run cs r) \<and> flagOnlyOnOwner (run cs r)"
  using assms
proof (induction cs arbitrary: r)
  case Nil
  then show ?case by simp
next
  case (Cons c cs)
  from Cons.prems(4) have c: "\<forall>k nm. c = AddPlayer k nm \<longrightarrow> k \<noteq> []"
    and cs: "\<forall>k nm. AddPlayer k nm \<in> set cs \<longrightarrow> k \<noteq> []"
    by auto
  from wellFormed_apply_op [OF Cons.prems(1) c]
       exclusive_apply_op [OF Cons.prems(1,2,3), of c]
  have "wellFormed (run cs (apply_op c r)) \<and> ownerIsPlayer (run cs (apply_op c r))
      \<and> flagOnlyOnOwner (run cs (apply_op c r))"
    using cs by (intro Cons.IH) simp_all
  then show ?case by simp
qed

lemma exclusive_reachable:
  "\<forall>k nm. AddPlayer k nm \<in> set cs \<longrightarrow> k \<noteq> [] \<Longrightarrow>
     ownerIsPlayer (run cs (new_GameRoom roomId now))
     \<and> flagOnlyOnOwner (run cs (new_GameRoom roomId now))"
proof -
  assume a: "\<forall>k nm. AddPlayer k nm \<in> set cs \<longrightarrow> k \<noteq> []"
  have o: "ownerIsPlayer (new_GameRoom roomId now)"
    by (simp add: ownerIsPlayer_def new_GameRoom_def centerBall_def)
  have f: "flagOnlyOnOwner (new_GameRoom roomId now)"
    by (simp add: flagOnlyOnOwner_def new_GameRoom_def)
  from exclusive_run [OF wellFormed_new_GameRoom o f a] show ?thesis by simp
qed

text \<open>
  \<open>ownedRoom\<close> has the invariant; after the second join of the owner's socket the
  owner lacks the flag.
\<close>

lemma ownedRoom_possession:
  "wellFormed ownedRoom \<and> possession ownedRoom
   \<and> \<not> ownerHasFlag (snd (addPlayer ''a'' ''Ann'' ownedRoom))
   \<and> \<not> possession (snd (addPlayer ''a'' ''Ann'' ownedRoom))"
  by (simp add: ownedRoom_eq wellFormed_def possession_def ownerIsPlayer_def
        flagOnlyOnOwner_def ownerHasFlag_def addPlayer_def newPlayer_def)

text \<open>
  Claim C2 on the code. In \<open>ownedRoom\<close> player \<open>a\<close> owns the ball and is the only one
  with \<open>hasBall\<close>. The socket of \<open>a\<close> joins the room again: the join succeeds, \<open>ball.owner\<close> is
  still \<open>a\<close>, but \<open>a\<close>'s \<open>hasBall\<close> is now false; and the next physics step leaves it so.
\<close>

theorem rejoin_of_owner_breaks_possession:
  "owner (ball ownedRoom) = Some ''a''
   \<and> map (\<lambda>(k, player). (k, hasBall player)) (players ownedRoom)
       = [(''a'', True), (''b'', False)]
   \<and> fst (addPlayer ''a'' ''Ann'' ownedRoom) = True
   \<and> owner (ball (snd (addPlayer ''a'' ''Ann'' ownedRoom))) = Some ''a''
   \<and> map (\<lambda>(k, player). (k, hasBall player)) (players (snd (addPlayer ''a'' ''Ann'' ownedRoom)))
       = [(''a'', False), (''b'', False)]
   \<and> owner (ball (updateBall 1032 1032 (snd (addPlayer ''a'' ''Ann'' ownedRoom)))) = Some ''a''
   \<and> map (\<lambda>(k, player). (k, hasBall player))
        (players (updateBall 1032 1032 (snd (addPlayer ''a'' ''Ann'' ownedRoom))))
       = [(''a'', False), (''b'', False)]"
  by (simp add: ownedRoom_eq room_defs constants distance_30 distance_35 Let_def)

section \<open>The game loop\<close>

lemma resume_game_gameLoops [simp]: "gameLoops (resume_game socket s) = gameLoops s"
  by (simp add: resume_game_def split: option.splits)

lemma pause_game_gameLoops [simp]: "gameLoops (pause_game socket s) = gameLoops s"
  by (simp add: pause_game_def split: option.splits)

lemma interval_tick_without_loop:
  "roomId \<notin> set (gameLoops s) \<Longrightarrow> interval_tick roomId now1 now2 s = s"
  by (simp add: interval_tick_def)

lemma startedServer_eq:
  "startedServer =
     \<lparr>gameRooms =
        [(''r'',
          \<lparr>room_id = ''r'',
           players =
             [(''a'', \<lparr>player_id = ''a'', player_name = ''Ann'', team = Team1, player_x = 100,
                       player_y = 220, player_vx = 0, player_vy = 0, hasBall = False,
                       player_score = 0, active = True\<rparr>),
              (''b'', \<lparr>player_id = ''b'', player_name = ''Bob'', team = Team1, player_x = 100,
                       player_y = 300, player_vx = 0, player_vy = 0, hasBall = False,
                       player_score = 0, active = True\<rparr>)],
           ball = \<lparr>ball_x = 512, ball_y = 300, ball_vx = 0, ball_vy = 49 / 625,
                    owner = None, inBasket = False\<rparr>,
           score = \<lparr>team1 = 0, team2 = 0\<rparr>, gameState = Playing, lastUpdate = 1016,
           gameStartTime = Some 1000, maxPlayers = 6\<rparr>)],
      playerSockets = [(''a'', ''r'', ''a''), (''b'', ''r'', ''b'')],
      gameLoops = [''r'']\<rparr>"
  by (simp add: startedServer_def server_defs room_defs constants distance_30 distance_35 Let_def)

text \<open>
  Claim C5 on the code. After \<open>start-game\<close> the room has its timer, and a tick has run
  a physics step (\<open>lastUpdate\<close> is the time of the tick). The game is paused; the next
  tick finds the room paused and removes the timer. \<open>resume-game\<close> makes the room
  play again but registers no timer: the room is playing, \<open>gameLoops\<close> is empty, and a
  later firing of the room's timer, which no longer exists, changes nothing.
\<close>

theorem resume_game_leaves_room_without_timer:
  "gameLoops startedServer = [''r'']
   \<and> map_option gameState (map_of (gameRooms startedServer) ''r'') = Some Playing
   \<and> map_option lastUpdate (map_of (gameRooms startedServer) ''r'') = Some 1016
   \<and> gameLoops (serve [PauseGame ''a'', Tick ''r'' 1033 1033] startedServer) = []
   \<and> map_option gameState (map_of (gameRooms resumedServer) ''r'') = Some Playing
   \<and> gameLoops resumedServer = []
   \<and> serve [Tick ''r'' 1050 1050, Tick ''r'' 1066 1066] resumedServer = resumedServer
   \<and> map_option lastUpdate (map_of (gameRooms resumedServer) ''r'') = Some 1016"
  by (simp add: resumedServer_def startedServer_eq server_defs)

end
